theory Spec2Isabelle
  imports Main "HOL-Library.Sublist"
begin

section \<open>GitHubHelper (src/github-helper.ts): data model\<close>

text \<open>
  The class talks to a remote host through an Octokit client. The model keeps every
  request the class sends in a trace (a list of \<open>call\<close> values, oldest first) and takes
  the host as a parameter: each endpoint is a function of the requests sent so far and
  of the request itself, returning either the thrown error or the response data. The
  logging calls (\<open>core.info\<close>, \<open>core.debug\<close>, \<open>core.error\<close>) have no effect on the
  requests or on the result and are left out, except where evaluating their argument
  can throw.
\<close>

subsection \<open>Thrown values\<close>

text \<open>
  A rejected request carries an error with a message; a property read on \<open>undefined\<close> or
  \<open>null\<close> throws a \<open>TypeError\<close>.
\<close>

datatype error = Error string | TypeError string

text \<open>
  Modelled from the spec: \<open>utils.getErrorMessage\<close> lives in \<open>./utils\<close>, which is not among
  the sources; the spec says the error message is inspected, so the helper returns the
  message the error carries.
\<close>

fun getErrorMessage :: "error \<Rightarrow> string" where
  "getErrorMessage (Error m) = m"
| "getErrorMessage (TypeError m) = m"

text \<open>\<open>String.prototype.includes\<close>: does \<open>p\<close> occur in \<open>s\<close> as a contiguous run.\<close>

fun includes_str :: "string \<Rightarrow> string \<Rightarrow> bool" where
  "includes_str [] p = (p = [])"
| "includes_str (c # cs) p = (prefix p (c # cs) \<or> includes_str cs p)"

subsection \<open>Strings and arrays of JavaScript\<close>

text \<open>
  \<open>s.split(sep)\<close> with a one-character separator: every occurrence of the separator
  cuts, and the result always has at least one element (the empty string gives one
  empty piece).
\<close>

fun split :: "string \<Rightarrow> char \<Rightarrow> string list" where
  "split [] sep = [[]]"
| "split (c # cs) sep =
     (if c = sep then [] # split cs sep
      else (case split cs sep of
              [] \<Rightarrow> [[c]]
            | w # ws \<Rightarrow> (c # w) # ws))"

text \<open>
  Reading \<open>arr[i]\<close>, also through array destructuring: \<open>undefined\<close> (here \<open>None\<close>) past
  the end.
\<close>

fun at :: "'a list \<Rightarrow> nat \<Rightarrow> 'a option" where
  "at [] i = None"
| "at (x # xs) 0 = Some x"
| "at (x # xs) (Suc i) = at xs i"

text \<open>A value inside a template literal or a string concatenation.\<close>

fun js_str :: "string option \<Rightarrow> string" where
  "js_str None = ''undefined''"
| "js_str (Some s) = s"

subsection \<open>Records of the source\<close>

text \<open>
  \<open>interface Repository\<close>. Both fields come from array destructuring, so either can be
  \<open>undefined\<close> at run time whatever the declared type says.
\<close>

record Repository =
  owner :: "string option"
  repo :: "string option"

text \<open>\<open>interface Pull\<close>, the result of the pull request operations.\<close>

record Pull =
  number :: int
  html_url :: string
  created :: bool

text \<open>
  Modelled from the spec: \<open>Inputs\<close> is declared in \<open>./create-pull-request\<close>, which is not
  among the sources. Only the fields the class reads are kept. The spec applies the
  milestone "if specified"; the source tests \<open>inputs.milestone\<close> for truthiness, which for
  a number means non-zero.
\<close>

record Inputs =
  branch :: string
  title :: string
  base :: string
  body :: string
  draft :: bool
  milestone :: int
  labels :: "string list"
  assignees :: "string list"
  reviewers :: "string list"
  teamReviewers :: "string list"

text \<open>
  Modelled from the spec: \<open>Commit\<close> is declared in \<open>./git-command-manager\<close>, which is not
  among the sources (the spec's LocalCommit and Change). The status is compared with
  the strings \<open>A\<close> and \<open>M\<close> in the source and is kept as a string.
\<close>

record Change =
  path :: string
  mode :: string
  status :: string

record Commit =
  sha :: string
  tree :: string
  parents :: "string list"
  subject :: string
  commit_body :: string
  changes :: "Change list"

text \<open>\<open>type TreeObject\<close>: the \<open>sha\<close> is \<open>null\<close> (here \<open>None\<close>) or a blob hash.\<close>

record TreeObject =
  tree_path :: string
  tree_mode :: string
  tree_sha :: "string option"
  tree_type :: string

text \<open>
  Modelled from the spec: \<open>BranchFileChanges\<close> is declared in \<open>./create-or-update-branch\<close>,
  which is not among the sources (the spec's BranchFileChangeSet): additions carry a
  path and the content, deletions a path.
\<close>

record FileAddition =
  addition_path :: string
  contents :: string

record BranchFileChanges =
  additions :: "FileAddition list"
  deletions :: "string list"

subsection \<open>Responses of the host\<close>

text \<open>
  The \<open>data\<close> of a pull request response, and the result of the ref query: the
  repository's id and its \<open>ref\<close>, which is \<open>null\<close> when the branch does not exist; of the
  ref's \<open>target\<close>, which the schema also allows to be \<open>null\<close>, only the \<open>oid\<close> is read.
\<close>

record PullData =
  data_number :: int
  data_html_url :: string

record Ref =
  target_oid :: "string option"

record TempRepository =
  repository_id :: string
  repository_ref :: "Ref option"

subsection \<open>Requests\<close>

text \<open>
  One constructor for each endpoint the class calls, with the parameters the source
  passes, in the order of the source:
  \<^item> \<open>PullsCreate\<close>: owner and repo, title, head, head_repo, base, body, draft;
  \<^item> \<open>PullsList\<close>: owner and repo, state, head, base;
  \<^item> \<open>PullsUpdate\<close>: owner and repo, pull_number, title, body;
  \<^item> \<open>IssuesUpdate\<close>: owner and repo, issue_number, milestone;
  \<^item> \<open>IssuesAddLabels\<close>, \<open>IssuesAddAssignees\<close>: owner and repo, issue_number, the list;
  \<^item> \<open>PullsRequestReviewers\<close>: owner and repo, pull_number, then \<open>reviewers\<close> and
    \<open>team_reviewers\<close>, each \<open>None\<close> when the key is absent from the parameters;
  \<^item> \<open>GitCreateBlob\<close>: owner and repo, content, encoding;
  \<^item> \<open>GitCreateTree\<close>: owner and repo, base_tree (\<open>commit.parents[0]\<close>, undefined for a
    commit with no parent), tree;
  \<^item> \<open>GitCreateCommit\<close>: owner and repo, parents, tree, message;
  \<^item> \<open>GitGetRef\<close>: owner and repo, ref;
  \<^item> \<open>GitUpdateRef\<close>: owner and repo, sha, ref, and \<open>force\<close>, \<open>None\<close> when the key is
    absent;
  \<^item> \<open>GitCreateRef\<close>: owner and repo, sha, ref;
  \<^item> \<open>GetRefId\<close> (the GraphQL ref query): repoOwner, repoName, branchName;
  \<^item> \<open>CreateNewBranch\<close> (the GraphQL mutation): repoId, oid, branchName;
  \<^item> \<open>PushCommit\<close> (the GraphQL mutation): branchName, repoNameWithOwner, headOid (the
    mutation's \<open>expectedHeadOid\<close>), commitMessage, fileChanges.
\<close>

datatype call =
    PullsCreate Repository string string string string string bool
  | PullsList Repository string string string
  | PullsUpdate Repository int string string
  | IssuesUpdate Repository int int
  | IssuesAddLabels Repository int "string list"
  | IssuesAddAssignees Repository int "string list"
  | PullsRequestReviewers Repository int "string list option" "string list option"
  | GitCreateBlob Repository string string
  | GitCreateTree Repository "string option" "TreeObject list"
  | GitCreateCommit Repository "string list" string string
  | GitGetRef Repository string
  | GitUpdateRef Repository string string "bool option"
  | GitCreateRef Repository string string
  | GetRefId "string option" "string option" string
  | CreateNewBranch string string string
  | PushCommit string string string string BranchFileChanges

text \<open>
  The client: each endpoint answers a request from the requests sent before it (oldest
  first) and the request itself, with \<open>Inl\<close> the error it throws or \<open>Inr\<close> the data the
  class reads from the response.
\<close>

record Octokit =
  rest_pulls_create :: "call list \<Rightarrow> call \<Rightarrow> error + PullData"
  rest_pulls_list :: "call list \<Rightarrow> call \<Rightarrow> error + PullData list"
  rest_pulls_update :: "call list \<Rightarrow> call \<Rightarrow> error + PullData"
  rest_issues_update :: "call list \<Rightarrow> call \<Rightarrow> error + unit"
  rest_issues_addLabels :: "call list \<Rightarrow> call \<Rightarrow> error + unit"
  rest_issues_addAssignees :: "call list \<Rightarrow> call \<Rightarrow> error + unit"
  rest_pulls_requestReviewers :: "call list \<Rightarrow> call \<Rightarrow> error + unit"
  rest_git_createBlob :: "call list \<Rightarrow> call \<Rightarrow> error + string"
  rest_git_createTree :: "call list \<Rightarrow> call \<Rightarrow> error + string"
  rest_git_createCommit :: "call list \<Rightarrow> call \<Rightarrow> error + string"
  rest_git_getRef :: "call list \<Rightarrow> call \<Rightarrow> error + unit"
  rest_git_updateRef :: "call list \<Rightarrow> call \<Rightarrow> error + unit"
  rest_git_createRef :: "call list \<Rightarrow> call \<Rightarrow> error + unit"
  graphql_GetRefId :: "call list \<Rightarrow> call \<Rightarrow> error + TempRepository"
  graphql_CreateNewBranch :: "call list \<Rightarrow> call \<Rightarrow> error + unit"
  graphql_PushCommit :: "call list \<Rightarrow> call \<Rightarrow> error + unit"

subsection \<open>Asynchronous operations\<close>

text \<open>
  An operation takes the trace and returns its outcome with the trace extended by the
  requests it sent. \<open>request\<close> sends one request; \<open>await\<close> continues with the value of
  an operation, or stops with its error, as \<open>await\<close> in an \<open>async\<close> function does.
\<close>

type_synonym 'a io = "call list \<Rightarrow> (error + 'a) \<times> call list"

definition ret :: "'a \<Rightarrow> 'a io" where
  "ret x tr = (Inr x, tr)"

definition throw :: "error \<Rightarrow> 'a io" where
  "throw e tr = (Inl e, tr)"

definition request :: "(call list \<Rightarrow> call \<Rightarrow> error + 'a) \<Rightarrow> call \<Rightarrow> 'a io" where
  "request endpoint c tr = (endpoint tr c, tr @ [c])"

definition await :: "'a io \<Rightarrow> ('a \<Rightarrow> 'b io) \<Rightarrow> 'b io" where
  "await m k tr =
     (case m tr of
        (Inl e, tr') \<Rightarrow> (Inl e, tr')
      | (Inr x, tr') \<Rightarrow> k x tr')"

text \<open>The \<open>TypeError\<close> of reading property \<open>p\<close> of \<open>undefined\<close> or \<open>null\<close>.\<close>

definition cannot_read :: "string \<Rightarrow> string \<Rightarrow> error" where
  "cannot_read what p =
     TypeError (''Cannot read properties of '' @ what @ '' (reading '' @
                [CHR 0x27] @ p @ [CHR 0x27] @ '')'')"

section \<open>parseRepository\<close>

definition parseRepository :: "string \<Rightarrow> Repository" where
  "parseRepository repository =
     (let parts = split repository (CHR ''/'')
      in \<lparr>owner = at parts 0, repo = at parts 1\<rparr>)"

section \<open>createOrUpdate\<close>

definition createOrUpdate :: "Octokit \<Rightarrow> Inputs \<Rightarrow> string \<Rightarrow> string \<Rightarrow> Pull io" where
  "createOrUpdate octokit inputs baseRepository headRepository tr =
     (let headOwner = at (split headRepository (CHR ''/'')) 0;
          headBranch = js_str headOwner @ '':'' @ branch inputs
      in case request (rest_pulls_create octokit)
                (PullsCreate (parseRepository baseRepository) (title inputs) headBranch
                   headRepository (base inputs) (body inputs) (draft inputs)) tr of
           (Inr pull, tr1) \<Rightarrow>
             (Inr \<lparr>number = data_number pull, html_url = data_html_url pull,
                   created = True\<rparr>, tr1)
         | (Inl e, tr1) \<Rightarrow>
             if includes_str (getErrorMessage e) ''A pull request already exists for''
             then
               await (request (rest_pulls_list octokit)
                        (PullsList (parseRepository baseRepository) ''open'' headBranch
                           (base inputs)))
                 (\<lambda>pulls.
                    case at pulls 0 of
                      None \<Rightarrow> throw (cannot_read ''undefined'' ''number'')
                    | Some pull0 \<Rightarrow>
                        await (request (rest_pulls_update octokit)
                                 (PullsUpdate (parseRepository baseRepository)
                                    (data_number pull0) (title inputs) (body inputs)))
                          (\<lambda>pull.
                             ret \<lparr>number = data_number pull,
                                  html_url = data_html_url pull, created = False\<rparr>))
                 tr1
             else (Inl e, tr1))"

section \<open>createOrUpdatePullRequest\<close>

text \<open>
  Modelled from the spec: \<open>utils.stripOrgPrefixFromTeams\<close> lives in \<open>./utils\<close>, which is
  not among the sources. The spec: team names are normalised by stripping any
  organization prefix, so that \<open>org/team-name\<close> is submitted as \<open>team-name\<close>. A name
  with no \<open>/\<close> has no prefix and stays as it is.
\<close>

definition stripOrgPrefix :: "string \<Rightarrow> string" where
  "stripOrgPrefix team =
     (if CHR ''/'' \<in> set team then tl (dropWhile (\<lambda>c. c \<noteq> CHR ''/'') team) else team)"

definition stripOrgPrefixFromTeams :: "string list \<Rightarrow> string list" where
  "stripOrgPrefixFromTeams teams = map stripOrgPrefix teams"

text \<open>
  The parameter object of the reviewer request is built key by key; the request is sent
  when the object has a key. Its error is rethrown as it is (after a log line for the
  token scope message).
\<close>

definition createOrUpdatePullRequest ::
    "Octokit \<Rightarrow> Inputs \<Rightarrow> string \<Rightarrow> string \<Rightarrow> Pull io" where
  "createOrUpdatePullRequest octokit inputs baseRepository headRepository =
     await (createOrUpdate octokit inputs baseRepository headRepository)
       (\<lambda>pull.
     await (if milestone inputs \<noteq> 0
            then request (rest_issues_update octokit)
                   (IssuesUpdate (parseRepository baseRepository) (number pull)
                      (milestone inputs))
            else ret ())
       (\<lambda>_.
     await (if length (labels inputs) > 0
            then request (rest_issues_addLabels octokit)
                   (IssuesAddLabels (parseRepository baseRepository) (number pull)
                      (labels inputs))
            else ret ())
       (\<lambda>_.
     await (if length (assignees inputs) > 0
            then request (rest_issues_addAssignees octokit)
                   (IssuesAddAssignees (parseRepository baseRepository) (number pull)
                      (assignees inputs))
            else ret ())
       (\<lambda>_.
     let params_reviewers =
           (if length (reviewers inputs) > 0 then Some (reviewers inputs) else None);
         params_team_reviewers =
           (if length (teamReviewers inputs) > 0
            then Some (stripOrgPrefixFromTeams (teamReviewers inputs)) else None)
     in
     await (if params_reviewers \<noteq> None \<or> params_team_reviewers \<noteq> None
            then request (rest_pulls_requestReviewers octokit)
                   (PullsRequestReviewers (parseRepository baseRepository) (number pull)
                      params_reviewers params_team_reviewers)
            else ret ())
       (\<lambda>_. ret pull)))))"

section \<open>createCommit, createOrUpdateRef and pushSignedCommits\<close>

text \<open>
  The callback mapped over \<open>commit.changes\<close>. The callbacks run in the order of the
  changes up to their first \<open>await\<close>, so the blob requests are sent in that order, all
  of them, before any response is looked at; the list returned holds the outcome of
  each callback. \<open>readFileBase64\<close> (of \<open>./utils\<close>, reading the working tree) is a
  parameter: it returns the content or throws, and a callback whose read throws sends
  no request.
\<close>

fun createBlobs ::
    "Octokit \<Rightarrow> (string list \<Rightarrow> error + string) \<Rightarrow> Repository \<Rightarrow> string \<Rightarrow> Change list \<Rightarrow>
     call list \<Rightarrow> (error + TreeObject) list \<times> call list" where
  "createBlobs octokit readFileBase64 repository repoPath [] tr = ([], tr)"
| "createBlobs octokit readFileBase64 repository repoPath (change # rest) tr =
     (if status change = ''A'' \<or> status change = ''M''
      then
        (case readFileBase64 [repoPath, path change] of
           Inl e \<Rightarrow>
             (case createBlobs octokit readFileBase64 repository repoPath rest tr of
                (rs, tr') \<Rightarrow> (Inl e # rs, tr'))
         | Inr content \<Rightarrow>
             (case request (rest_git_createBlob octokit)
                     (GitCreateBlob repository content ''base64'') tr of
                (blob, tr1) \<Rightarrow>
                  (case createBlobs octokit readFileBase64 repository repoPath rest tr1 of
                     (rs, tr') \<Rightarrow>
                       (map_sum id
                          (\<lambda>blob_sha. \<lparr>tree_path = path change, tree_mode = mode change,
                                       tree_sha = Some blob_sha, tree_type = ''blob''\<rparr>)
                          blob # rs, tr'))))
      else
        (case createBlobs octokit readFileBase64 repository repoPath rest tr of
           (rs, tr') \<Rightarrow>
             (Inr \<lparr>tree_path = path change, tree_mode = mode change,
                   tree_sha = None, tree_type = ''blob''\<rparr> # rs, tr')))"

text \<open>
  \<open>Promise.all\<close>: the values in order when every promise is fulfilled, else an error.
  The uploads race, and the source gets the error of whichever fails first; the model
  takes the first failure in the order of the list.
\<close>

fun promise_all :: "(error + 'a) list \<Rightarrow> error + 'a list" where
  "promise_all [] = Inr []"
| "promise_all (Inl e # rs) = Inl e"
| "promise_all (Inr x # rs) =
     (case promise_all rs of Inl e \<Rightarrow> Inl e | Inr xs \<Rightarrow> Inr (x # xs))"

definition createCommit ::
    "Octokit \<Rightarrow> (string list \<Rightarrow> error + string) \<Rightarrow> Commit \<Rightarrow> string \<Rightarrow> string \<Rightarrow> string io" where
  "createCommit octokit readFileBase64 commit repoPath branchRepository =
     (let repository = parseRepository branchRepository
      in
      await (if length (changes commit) > 0
             then
               await (\<lambda>tr. case createBlobs octokit readFileBase64 repository repoPath
                                  (changes commit) tr of
                              (rs, tr') \<Rightarrow> (promise_all rs, tr'))
                 (\<lambda>treeObjects.
                    request (rest_git_createTree octokit)
                      (GitCreateTree repository (at (parents commit) 0) treeObjects))
             else ret (tree commit))
        (\<lambda>treeSha.
           request (rest_git_createCommit octokit)
             (GitCreateCommit repository (parents commit) treeSha
                (subject commit @ [CHR 0x0A, CHR 0x0A] @ commit_body commit))))"

text \<open>
  The existence probe turns any failure of the read into \<open>false\<close>; the update passes
  no \<open>force\<close>.
\<close>

definition createOrUpdateRef :: "Octokit \<Rightarrow> string \<Rightarrow> string \<Rightarrow> string \<Rightarrow> unit io" where
  "createOrUpdateRef octokit branchRepository branch' newHead tr =
     (let repository = parseRepository branchRepository
      in case request (rest_git_getRef octokit) (GitGetRef repository branch') tr of
           (r, tr1) \<Rightarrow>
             (let branchExists = (case r of Inr _ \<Rightarrow> True | Inl _ \<Rightarrow> False)
              in if branchExists
                 then request (rest_git_updateRef octokit)
                        (GitUpdateRef repository newHead (''heads/'' @ branch') None) tr1
                 else request (rest_git_createRef octokit)
                        (GitCreateRef repository newHead (''refs/heads/'' @ branch')) tr1))"

text \<open>The loop of \<open>pushSignedCommits\<close>, with \<open>headSha\<close> as its variable.\<close>

fun pushSignedCommits_loop ::
    "Octokit \<Rightarrow> (string list \<Rightarrow> error + string) \<Rightarrow> Commit list \<Rightarrow> string \<Rightarrow> string \<Rightarrow>
     string \<Rightarrow> string io" where
  "pushSignedCommits_loop octokit readFileBase64 [] repoPath branchRepository headSha tr =
     (Inr headSha, tr)"
| "pushSignedCommits_loop octokit readFileBase64 (commit # rest) repoPath branchRepository
       headSha tr =
     (case createCommit octokit readFileBase64 commit repoPath branchRepository tr of
        (Inl e, tr') \<Rightarrow> (Inl e, tr')
      | (Inr headSha', tr') \<Rightarrow>
          pushSignedCommits_loop octokit readFileBase64 rest repoPath branchRepository
            headSha' tr')"

definition pushSignedCommits ::
    "Octokit \<Rightarrow> (string list \<Rightarrow> error + string) \<Rightarrow> Commit list \<Rightarrow> string \<Rightarrow> string \<Rightarrow>
     string \<Rightarrow> unit io" where
  "pushSignedCommits octokit readFileBase64 branchCommits repoPath branchRepository branch' =
     await (pushSignedCommits_loop octokit readFileBase64 branchCommits repoPath
              branchRepository '''')
       (\<lambda>headSha. createOrUpdateRef octokit branchRepository branch' headSha)"

section \<open>pushSignedCommit\<close>

text \<open>
  The log lines read \<open>branchRef.repository.ref!.target!.oid\<close>, which throws when the ref
  or its target is \<open>null\<close>: once right after the query of the base (so before the test
  \<open>ref != null\<close> that guards the branch creation), once before the commit is pushed.
  \<open>oid_of\<close> is that read. \<open>branchFileChanges\<close> is an optional parameter, read with \<open>!\<close>.
\<close>

definition oid_of :: "TempRepository \<Rightarrow> error + string" where
  "oid_of branchRef =
     (case repository_ref branchRef of
        None \<Rightarrow> Inl (cannot_read ''null'' ''target'')
      | Some r \<Rightarrow>
          (case target_oid r of
             None \<Rightarrow> Inl (cannot_read ''null'' ''oid'')
           | Some oid \<Rightarrow> Inr oid))"

definition pushSignedCommit ::
    "Octokit \<Rightarrow> string \<Rightarrow> string \<Rightarrow> string \<Rightarrow> string \<Rightarrow> BranchFileChanges option \<Rightarrow> unit io" where
  "pushSignedCommit octokit branchRepository branch' base' commitMessage branchFileChanges =
     (let repoOwner = at (split branchRepository (CHR ''/'')) 0;
          repoName = at (split branchRepository (CHR ''/'')) 1
      in
      await (request (graphql_GetRefId octokit) (GetRefId repoOwner repoName branch'))
        (\<lambda>branchRef0.
      await (if repository_ref branchRef0 = None
             then
               await (request (graphql_GetRefId octokit) (GetRefId repoOwner repoName base'))
                 (\<lambda>branchRef.
                    case oid_of branchRef of
                      Inl e \<Rightarrow> throw e
                    | Inr oid \<Rightarrow>
                        await (request (graphql_CreateNewBranch octokit)
                                 (CreateNewBranch (repository_id branchRef) oid
                                    (''refs/heads/'' @ branch')))
                          (\<lambda>_. ret branchRef))
             else ret branchRef0)
        (\<lambda>branchRef.
           case oid_of branchRef of
             Inl e \<Rightarrow> throw e
           | Inr oid \<Rightarrow>
               (case branchFileChanges of
                  None \<Rightarrow> throw (cannot_read ''undefined'' ''additions'')
                | Some fileChanges \<Rightarrow>
                    request (graphql_PushCommit octokit)
                      (PushCommit branch' (js_str repoOwner @ ''/'' @ js_str repoName) oid
                         commitMessage
                         \<lparr>additions = additions fileChanges,
                          deletions = deletions fileChanges\<rparr>)))))"

text \<open>
  What the spec says of the name: everything after the first separator. Used only to
  compare with \<open>parseRepository\<close>.
\<close>

definition remainder_after_first :: "string \<Rightarrow> char \<Rightarrow> string" where
  "remainder_after_first s sep = tl (dropWhile (\<lambda>c. c \<noteq> sep) s)"

section \<open>Observations and example data\<close>

text \<open>\<open>is_requestReviewers\<close> picks the reviewer requests out of a trace.\<close>

fun is_requestReviewers :: "call \<Rightarrow> bool" where
  "is_requestReviewers (PullsRequestReviewers r n us ts) = True"
| "is_requestReviewers c = False"

text \<open>
  The inputs of a run, and a host for the repository \<open>octo/repo\<close>. \<open>host_ok\<close> accepts
  the first request it gets when that is a pull request creation (pull request 7) and
  refuses any later creation as already existing; it lists pull request 7 and answers an
  update with the pull request updated. Every metadata request succeeds. Blob, tree and
  commit creations succeed (the first request of a run, when a commit creation, is
  answered \<open>remote1\<close>, later ones \<open>remote2\<close>). No REST ref can be read; in GraphQL only
  the branch \<open>main\<close> exists, at \<open>abc123\<close>.
\<close>

definition inputs_ex :: Inputs where
  "inputs_ex =
     \<lparr>branch = ''feature'', title = ''Update'', base = ''main'', body = ''Changes'',
      draft = False, milestone = 3, labels = [''bot''], assignees = [''alice''],
      reviewers = [''bob''], teamReviewers = [''org/team-name'']\<rparr>"

definition pull7 :: PullData where
  "pull7 = \<lparr>data_number = 7, data_html_url = ''https://host/octo/repo/pull/7''\<rparr>"

definition already_exists :: error where
  "already_exists =
     Error ''Validation Failed: A pull request already exists for octo:feature.''"

definition host_ok :: Octokit where
  "host_ok =
     \<lparr>rest_pulls_create = (\<lambda>tr c. if tr = [] then Inr pull7 else Inl already_exists),
      rest_pulls_list = (\<lambda>tr c. Inr [pull7]),
      rest_pulls_update =
        (\<lambda>tr c. case c of
                   PullsUpdate r n t b \<Rightarrow>
                     Inr \<lparr>data_number = n, data_html_url = ''https://host/octo/repo/pull/7''\<rparr>
                 | _ \<Rightarrow> Inl (Error ''Not Found'')),
      rest_issues_update = (\<lambda>tr c. Inr ()),
      rest_issues_addLabels = (\<lambda>tr c. Inr ()),
      rest_issues_addAssignees = (\<lambda>tr c. Inr ()),
      rest_pulls_requestReviewers = (\<lambda>tr c. Inr ()),
      rest_git_createBlob = (\<lambda>tr c. Inr ''b10b''),
      rest_git_createTree = (\<lambda>tr c. Inr ''7ree''),
      rest_git_createCommit = (\<lambda>tr c. if tr = [] then Inr ''remote1'' else Inr ''remote2''),
      rest_git_getRef = (\<lambda>tr c. Inl (Error ''Not Found'')),
      rest_git_updateRef = (\<lambda>tr c. Inr ()),
      rest_git_createRef = (\<lambda>tr c. Inr ()),
      graphql_GetRefId =
        (\<lambda>tr c. case c of
                   GetRefId ow nm b \<Rightarrow>
                     Inr \<lparr>repository_id = ''R_1'',
                          repository_ref =
                            (if b = ''main'' then Some \<lparr>target_oid = Some ''abc123''\<rparr>
                             else None)\<rparr>
                 | _ \<Rightarrow> Inl (Error ''Not Found'')),
      graphql_CreateNewBranch = (\<lambda>tr c. Inr ()),
      graphql_PushCommit = (\<lambda>tr c. Inr ())\<rparr>"

text \<open>
  Local commits, a working tree with the single file \<open>a.txt\<close>, the file changes of an
  atomic push, and a host that refuses labels.
\<close>

definition commit1 :: Commit where
  "commit1 =
     \<lparr>sha = ''1111'', tree = ''aaaa'', parents = [''0000''], subject = ''first'',
      commit_body = '''', changes = []\<rparr>"

definition commit2 :: Commit where
  "commit2 =
     \<lparr>sha = ''2222'', tree = ''bbbb'', parents = [''1111''], subject = ''second'',
      commit_body = '''', changes = []\<rparr>"

definition commit3 :: Commit where
  "commit3 =
     \<lparr>sha = ''3333'', tree = ''cccc'', parents = [''0000''], subject = ''third'',
      commit_body = '''',
      changes = [\<lparr>path = ''a.txt'', mode = ''100644'', status = ''M''\<rparr>,
                 \<lparr>path = ''b.txt'', mode = ''100644'', status = ''D''\<rparr>]\<rparr>"

definition files_ex :: "string list \<Rightarrow> error + string" where
  "files_ex pathParts =
     (if pathParts = [''/work'', ''a.txt''] then Inr ''aGVsbG8=''
      else Inl (Error ''ENOENT: no such file or directory''))"

definition fileChanges_ex :: BranchFileChanges where
  "fileChanges_ex =
     \<lparr>additions = [\<lparr>addition_path = ''a.txt'', contents = ''aGVsbG8=''\<rparr>],
      deletions = [''b.txt'']\<rparr>"

definition host_labels_refused :: Octokit where
  "host_labels_refused =
     host_ok\<lparr>rest_issues_addLabels := \<lambda>tr c. Inl (Error ''Validation Failed'')\<rparr>"

section \<open>Properties\<close>

subsection \<open>Splitting\<close>

lemma split_not_Nil: "split s sep \<noteq> []"
  by (induction s) (auto split: list.splits)

lemma hd_split: "hd (split s sep) = takeWhile (\<lambda>c. c \<noteq> sep) s"
  by (induction s) (auto split: list.splits simp: split_not_Nil)

lemma at_0_hd: "xs \<noteq> [] \<Longrightarrow> at xs 0 = Some (hd xs)"
  by (cases xs) auto

lemma at_0_split: "at (split s sep) 0 = Some (takeWhile (\<lambda>c. c \<noteq> sep) s)"
  by (simp add: at_0_hd split_not_Nil hd_split)

lemma at_1_split:
  "at (split s sep) 1 =
     (if sep \<in> set s
      then Some (takeWhile (\<lambda>c. c \<noteq> sep) (tl (dropWhile (\<lambda>c. c \<noteq> sep) s)))
      else None)"
proof (induction s)
  case Nil
  show ?case by simp
next
  case (Cons c cs)
  show ?case
  proof (cases "c = sep")
    case True
    then show ?thesis by (simp add: at_0_split)
  next
    case False
    obtain w ws where sp: "split cs sep = w # ws"
      using split_not_Nil [of cs sep] by (cases "split cs sep") auto
    with Cons False show ?thesis by simp
  qed
qed

text \<open>
  C6 (as amended). \<open>parseRepository\<close> cuts the input at every \<open>/\<close> and keeps the first two
  pieces: the owner is the text before the first \<open>/\<close> (the whole input when there is
  none), and the name is the text between the first and the second \<open>/\<close> (up to the end
  when there is no second one), or undefined when the input has no \<open>/\<close>. Nothing else
  is validated.
\<close>

theorem parseRepository_first_two_pieces:
  "parseRepository s =
     \<lparr>owner = Some (takeWhile (\<lambda>c. c \<noteq> CHR ''/'') s),
      repo = (if CHR ''/'' \<in> set s
              then Some (takeWhile (\<lambda>c. c \<noteq> CHR ''/'')
                           (remainder_after_first s (CHR ''/'')))
              else None)\<rparr>"
  unfolding parseRepository_def remainder_after_first_def Let_def
  by (simp only: at_0_split at_1_split)

text \<open>
  C6 as stated fails: for \<open>a/b/c\<close> the name is \<open>b\<close>, not the remainder \<open>b/c\<close> of the
  input after its first \<open>/\<close>.
\<close>

theorem parseRepository_not_remainder:
  "repo (parseRepository ''a/b/c'') = Some ''b'' \<and>
   remainder_after_first ''a/b/c'' (CHR ''/'') = ''b/c'' \<and>
   repo (parseRepository ''a/b/c'') \<noteq> Some (remainder_after_first ''a/b/c'' (CHR ''/''))"
  by (simp add: parseRepository_def remainder_after_first_def)

subsection \<open>createOrUpdate\<close>

lemma createOrUpdate_created:
  assumes "rest_pulls_create octokit tr
             (PullsCreate (parseRepository baseRepository) (title inputs)
                (js_str (at (split headRepository (CHR ''/'')) 0) @ '':'' @ branch inputs)
                headRepository (base inputs) (body inputs) (draft inputs)) = Inr pull"
  shows "createOrUpdate octokit inputs baseRepository headRepository tr =
           (Inr \<lparr>number = data_number pull, html_url = data_html_url pull, created = True\<rparr>,
            tr @ [PullsCreate (parseRepository baseRepository) (title inputs)
                (js_str (at (split headRepository (CHR ''/'')) 0) @ '':'' @ branch inputs)
                headRepository (base inputs) (body inputs) (draft inputs)])"
  using assms by (simp add: createOrUpdate_def request_def Let_def)

lemma createOrUpdate_rethrown:
  assumes "rest_pulls_create octokit tr
             (PullsCreate (parseRepository baseRepository) (title inputs)
                (js_str (at (split headRepository (CHR ''/'')) 0) @ '':'' @ branch inputs)
                headRepository (base inputs) (body inputs) (draft inputs)) = Inl e"
    and "\<not> includes_str (getErrorMessage e) ''A pull request already exists for''"
  shows "createOrUpdate octokit inputs baseRepository headRepository tr =
           (Inl e,
            tr @ [PullsCreate (parseRepository baseRepository) (title inputs)
                (js_str (at (split headRepository (CHR ''/'')) 0) @ '':'' @ branch inputs)
                headRepository (base inputs) (body inputs) (draft inputs)])"
  using assms by (simp add: createOrUpdate_def request_def Let_def)

lemma createOrUpdate_reconcile:
  assumes "rest_pulls_create octokit tr
             (PullsCreate (parseRepository baseRepository) (title inputs)
                (js_str (at (split headRepository (CHR ''/'')) 0) @ '':'' @ branch inputs)
                headRepository (base inputs) (body inputs) (draft inputs)) = Inl e"
    and "includes_str (getErrorMessage e) ''A pull request already exists for''"
  shows "createOrUpdate octokit inputs baseRepository headRepository tr =
     (let r = parseRepository baseRepository;
          headBranch = js_str (at (split headRepository (CHR ''/'')) 0) @ '':'' @ branch inputs;
          c1 = PullsCreate r (title inputs) headBranch headRepository (base inputs)
                 (body inputs) (draft inputs);
          c2 = PullsList r ''open'' headBranch (base inputs)
      in case rest_pulls_list octokit (tr @ [c1]) c2 of
           Inl e2 \<Rightarrow> (Inl e2, tr @ [c1, c2])
         | Inr [] \<Rightarrow> (Inl (cannot_read ''undefined'' ''number''), tr @ [c1, c2])
         | Inr (pull0 # rest) \<Rightarrow>
             (let c3 = PullsUpdate r (data_number pull0) (title inputs) (body inputs)
              in (map_sum id (\<lambda>pull. \<lparr>number = data_number pull, html_url = data_html_url pull,
                                       created = False\<rparr>)
                    (rest_pulls_update octokit (tr @ [c1, c2]) c3),
                  tr @ [c1, c2, c3])))"
  using assms
  by (simp add: createOrUpdate_def request_def await_def ret_def throw_def Let_def
           split: sum.splits list.splits)

text \<open>
  C4. \<open>createOrUpdate\<close> returns \<open>created = true\<close> when the creation request succeeds. A
  creation error whose message does not contain "A pull request already exists for" is
  rethrown as it is, after that one request. When the message does contain it, the open
  pull requests are listed for the exact head and base, the first one's title and body
  are updated, and the result carries the number of the update's response with
  \<open>created = false\<close>. So two calls in a row, on a host that accepts the first creation,
  refuses the second as already existing, lists the pull request created and answers the
  update with the pull request updated, return \<open>created = true\<close> and then
  \<open>created = false\<close>, with the same number.
\<close>

theorem createOrUpdate_create_or_reconcile:
  fixes octokit inputs baseRepository headRepository tr
  defines "r \<equiv> parseRepository baseRepository"
    and "headBranch \<equiv> js_str (at (split headRepository (CHR ''/'')) 0) @ '':'' @ branch inputs"
  defines "c1 \<equiv> PullsCreate r (title inputs) headBranch headRepository (base inputs)
                   (body inputs) (draft inputs)"
    and "c2 \<equiv> PullsList r ''open'' headBranch (base inputs)"
  shows
   "(\<forall>pull. rest_pulls_create octokit tr c1 = Inr pull \<longrightarrow>
       createOrUpdate octokit inputs baseRepository headRepository tr =
         (Inr \<lparr>number = data_number pull, html_url = data_html_url pull, created = True\<rparr>,
          tr @ [c1])) \<and>
    (\<forall>e. rest_pulls_create octokit tr c1 = Inl e \<and>
         \<not> includes_str (getErrorMessage e) ''A pull request already exists for'' \<longrightarrow>
       createOrUpdate octokit inputs baseRepository headRepository tr = (Inl e, tr @ [c1])) \<and>
    (\<forall>e pull0 rest pull.
       rest_pulls_create octokit tr c1 = Inl e \<and>
       includes_str (getErrorMessage e) ''A pull request already exists for'' \<and>
       rest_pulls_list octokit (tr @ [c1]) c2 = Inr (pull0 # rest) \<and>
       rest_pulls_update octokit (tr @ [c1, c2])
         (PullsUpdate r (data_number pull0) (title inputs) (body inputs)) = Inr pull \<longrightarrow>
       createOrUpdate octokit inputs baseRepository headRepository tr =
         (Inr \<lparr>number = data_number pull, html_url = data_html_url pull, created = False\<rparr>,
          tr @ [c1, c2, PullsUpdate r (data_number pull0) (title inputs) (body inputs)])) \<and>
    (\<forall>created1 e pull0 rest pull.
       rest_pulls_create octokit tr c1 = Inr created1 \<and>
       rest_pulls_create octokit (tr @ [c1]) c1 = Inl e \<and>
       includes_str (getErrorMessage e) ''A pull request already exists for'' \<and>
       rest_pulls_list octokit (tr @ [c1, c1]) c2 = Inr (pull0 # rest) \<and>
       data_number pull0 = data_number created1 \<and>
       rest_pulls_update octokit (tr @ [c1, c1, c2])
         (PullsUpdate r (data_number pull0) (title inputs) (body inputs)) = Inr pull \<and>
       data_number pull = data_number pull0 \<longrightarrow>
       (\<exists>first second tr1 tr2.
          createOrUpdate octokit inputs baseRepository headRepository tr = (Inr first, tr1) \<and>
          createOrUpdate octokit inputs baseRepository headRepository tr1 = (Inr second, tr2) \<and>
          created first \<and> \<not> created second \<and>
          number first = data_number created1 \<and> number second = number first))"
proof (intro conjI allI impI)
  fix pull
  assume "rest_pulls_create octokit tr c1 = Inr pull"
  then show "createOrUpdate octokit inputs baseRepository headRepository tr =
         (Inr \<lparr>number = data_number pull, html_url = data_html_url pull, created = True\<rparr>,
          tr @ [c1])"
    unfolding c1_def headBranch_def r_def by (rule createOrUpdate_created)
next
  fix e
  assume "rest_pulls_create octokit tr c1 = Inl e \<and>
         \<not> includes_str (getErrorMessage e) ''A pull request already exists for''"
  then show "createOrUpdate octokit inputs baseRepository headRepository tr = (Inl e, tr @ [c1])"
    unfolding c1_def headBranch_def r_def by (simp add: createOrUpdate_rethrown)
next
  fix e pull0 rest pull
  assume a: "rest_pulls_create octokit tr c1 = Inl e \<and>
       includes_str (getErrorMessage e) ''A pull request already exists for'' \<and>
       rest_pulls_list octokit (tr @ [c1]) c2 = Inr (pull0 # rest) \<and>
       rest_pulls_update octokit (tr @ [c1, c2])
         (PullsUpdate r (data_number pull0) (title inputs) (body inputs)) = Inr pull"
  then have "rest_pulls_create octokit tr c1 = Inl e"
    and "includes_str (getErrorMessage e) ''A pull request already exists for''"
    by simp_all
  from createOrUpdate_reconcile [OF this [unfolded c1_def headBranch_def r_def]] a
  show "createOrUpdate octokit inputs baseRepository headRepository tr =
         (Inr \<lparr>number = data_number pull, html_url = data_html_url pull, created = False\<rparr>,
          tr @ [c1, c2, PullsUpdate r (data_number pull0) (title inputs) (body inputs)])"
    unfolding c1_def c2_def headBranch_def r_def by (simp add: Let_def)
next
  fix created1 e pull0 rest pull
  assume a: "rest_pulls_create octokit tr c1 = Inr created1 \<and>
       rest_pulls_create octokit (tr @ [c1]) c1 = Inl e \<and>
       includes_str (getErrorMessage e) ''A pull request already exists for'' \<and>
       rest_pulls_list octokit (tr @ [c1, c1]) c2 = Inr (pull0 # rest) \<and>
       data_number pull0 = data_number created1 \<and>
       rest_pulls_update octokit (tr @ [c1, c1, c2])
         (PullsUpdate r (data_number pull0) (title inputs) (body inputs)) = Inr pull \<and>
       data_number pull = data_number pull0"
  then have first: "createOrUpdate octokit inputs baseRepository headRepository tr =
         (Inr \<lparr>number = data_number created1, html_url = data_html_url created1,
               created = True\<rparr>, tr @ [c1])"
    unfolding c1_def headBranch_def r_def by (simp add: createOrUpdate_created)
  from a have "rest_pulls_create octokit (tr @ [c1]) c1 = Inl e"
    and "includes_str (getErrorMessage e) ''A pull request already exists for''"
    by simp_all
  note rec = createOrUpdate_reconcile [OF this [unfolded c1_def headBranch_def r_def]]
  from a have l: "rest_pulls_list octokit (tr @ [c1, c1]) c2 = Inr (pull0 # rest)"
    and u: "rest_pulls_update octokit (tr @ [c1, c1, c2])
         (PullsUpdate r (data_number pull0) (title inputs) (body inputs)) = Inr pull"
    by blast+
  from rec l u
  have second: "createOrUpdate octokit inputs baseRepository headRepository (tr @ [c1]) =
         (Inr \<lparr>number = data_number pull, html_url = data_html_url pull, created = False\<rparr>,
          tr @ [c1, c1, c2, PullsUpdate r (data_number pull0) (title inputs) (body inputs)])"
    unfolding c1_def c2_def headBranch_def r_def by (simp add: Let_def)
  from a have "data_number pull = data_number created1" by simp
  with first second
  show "\<exists>first second tr1 tr2.
          createOrUpdate octokit inputs baseRepository headRepository tr = (Inr first, tr1) \<and>
          createOrUpdate octokit inputs baseRepository headRepository tr1 = (Inr second, tr2) \<and>
          created first \<and> \<not> created second \<and>
          number first = data_number created1 \<and> number second = number first"
    by simp
qed


lemma includes_already_exists:
  "includes_str (getErrorMessage already_exists) ''A pull request already exists for''"
  by (simp add: already_exists_def)

text \<open>
  The theorem at work on \<open>host_ok\<close>: two calls in a row; the creation and the
  reconciliation from the trace the creation left, request by request; and a rethrown
  error on a host that refuses with another message.
\<close>

theorem createOrUpdate_create_or_reconcile_witness:
  "(\<exists>first second tr1 tr2.
      createOrUpdate host_ok inputs_ex ''octo/repo'' ''octo/repo'' [] = (Inr first, tr1) \<and>
      createOrUpdate host_ok inputs_ex ''octo/repo'' ''octo/repo'' tr1 = (Inr second, tr2) \<and>
      created first \<and> \<not> created second \<and> number first = 7 \<and> number second = 7) \<and>
   createOrUpdate host_ok inputs_ex ''octo/repo'' ''octo/repo'' [] =
     (Inr \<lparr>number = 7, html_url = ''https://host/octo/repo/pull/7'', created = True\<rparr>,
      [PullsCreate \<lparr>owner = Some ''octo'', repo = Some ''repo''\<rparr> ''Update'' ''octo:feature''
         ''octo/repo'' ''main'' ''Changes'' False]) \<and>
   createOrUpdate host_ok inputs_ex ''octo/repo'' ''octo/repo''
       [PullsCreate \<lparr>owner = Some ''octo'', repo = Some ''repo''\<rparr> ''Update'' ''octo:feature''
          ''octo/repo'' ''main'' ''Changes'' False] =
     (Inr \<lparr>number = 7, html_url = ''https://host/octo/repo/pull/7'', created = False\<rparr>,
      [PullsCreate \<lparr>owner = Some ''octo'', repo = Some ''repo''\<rparr> ''Update'' ''octo:feature''
         ''octo/repo'' ''main'' ''Changes'' False,
       PullsCreate \<lparr>owner = Some ''octo'', repo = Some ''repo''\<rparr> ''Update'' ''octo:feature''
         ''octo/repo'' ''main'' ''Changes'' False,
       PullsList \<lparr>owner = Some ''octo'', repo = Some ''repo''\<rparr> ''open'' ''octo:feature''
         ''main'',
       PullsUpdate \<lparr>owner = Some ''octo'', repo = Some ''repo''\<rparr> 7 ''Update'' ''Changes'']) \<and>
   createOrUpdate (host_ok\<lparr>rest_pulls_create := \<lambda>tr c. Inl (Error ''Bad credentials'')\<rparr>)
       inputs_ex ''octo/repo'' ''octo/repo'' [] =
     (Inl (Error ''Bad credentials''),
      [PullsCreate \<lparr>owner = Some ''octo'', repo = Some ''repo''\<rparr> ''Update'' ''octo:feature''
         ''octo/repo'' ''main'' ''Changes'' False])"
proof -
  have host:
    "rest_pulls_create host_ok [] c1 = Inr pull7 \<and>
     rest_pulls_create host_ok ([] @ [x]) c2 = Inl already_exists \<and>
     includes_str (getErrorMessage already_exists) ''A pull request already exists for'' \<and>
     rest_pulls_list host_ok t3 c3 = Inr (pull7 # []) \<and>
     data_number pull7 = data_number pull7 \<and>
     rest_pulls_update host_ok t4 (PullsUpdate r4 (data_number pull7) ti bo) =
       Inr \<lparr>data_number = data_number pull7,
            data_html_url = ''https://host/octo/repo/pull/7''\<rparr> \<and>
     data_number \<lparr>data_number = data_number pull7,
                  data_html_url = ''https://host/octo/repo/pull/7''\<rparr> = data_number pull7"
    for c1 x c2 t3 c3 t4 r4 ti bo
    by (simp add: host_ok_def includes_already_exists)
  from createOrUpdate_create_or_reconcile
         [where octokit = host_ok and inputs = inputs_ex and baseRepository = "''octo/repo''"
            and headRepository = "''octo/repo''" and tr = "[]",
          THEN conjunct2, THEN conjunct2, THEN conjunct2, rule_format, OF host]
  have twice:
    "\<exists>first second tr1 tr2.
       createOrUpdate host_ok inputs_ex ''octo/repo'' ''octo/repo'' [] = (Inr first, tr1) \<and>
       createOrUpdate host_ok inputs_ex ''octo/repo'' ''octo/repo'' tr1 = (Inr second, tr2) \<and>
       created first \<and> \<not> created second \<and> number first = 7 \<and> number second = 7"
    by (auto simp add: pull7_def)
  have each:
    "createOrUpdate host_ok inputs_ex ''octo/repo'' ''octo/repo'' [] =
     (Inr \<lparr>number = 7, html_url = ''https://host/octo/repo/pull/7'', created = True\<rparr>,
      [PullsCreate \<lparr>owner = Some ''octo'', repo = Some ''repo''\<rparr> ''Update'' ''octo:feature''
         ''octo/repo'' ''main'' ''Changes'' False]) \<and>
     createOrUpdate host_ok inputs_ex ''octo/repo'' ''octo/repo''
       [PullsCreate \<lparr>owner = Some ''octo'', repo = Some ''repo''\<rparr> ''Update'' ''octo:feature''
          ''octo/repo'' ''main'' ''Changes'' False] =
     (Inr \<lparr>number = 7, html_url = ''https://host/octo/repo/pull/7'', created = False\<rparr>,
      [PullsCreate \<lparr>owner = Some ''octo'', repo = Some ''repo''\<rparr> ''Update'' ''octo:feature''
         ''octo/repo'' ''main'' ''Changes'' False,
       PullsCreate \<lparr>owner = Some ''octo'', repo = Some ''repo''\<rparr> ''Update'' ''octo:feature''
         ''octo/repo'' ''main'' ''Changes'' False,
       PullsList \<lparr>owner = Some ''octo'', repo = Some ''repo''\<rparr> ''open'' ''octo:feature''
         ''main'',
       PullsUpdate \<lparr>owner = Some ''octo'', repo = Some ''repo''\<rparr> 7 ''Update'' ''Changes'']) \<and>
     createOrUpdate (host_ok\<lparr>rest_pulls_create := \<lambda>tr c. Inl (Error ''Bad credentials'')\<rparr>)
       inputs_ex ''octo/repo'' ''octo/repo'' [] =
     (Inl (Error ''Bad credentials''),
      [PullsCreate \<lparr>owner = Some ''octo'', repo = Some ''repo''\<rparr> ''Update'' ''octo:feature''
         ''octo/repo'' ''main'' ''Changes'' False])"
    using createOrUpdate_create_or_reconcile
          [where octokit = host_ok and inputs = inputs_ex and baseRepository = "''octo/repo''"
             and headRepository = "''octo/repo''" and tr = "[]"]
        createOrUpdate_create_or_reconcile
          [where octokit = host_ok and inputs = inputs_ex and baseRepository = "''octo/repo''"
             and headRepository = "''octo/repo''"
             and tr = "[PullsCreate \<lparr>owner = Some ''octo'', repo = Some ''repo''\<rparr> ''Update''
                          ''octo:feature'' ''octo/repo'' ''main'' ''Changes'' False]"]
        createOrUpdate_create_or_reconcile
          [where octokit = "host_ok\<lparr>rest_pulls_create := \<lambda>tr c. Inl (Error ''Bad credentials'')\<rparr>"
             and inputs = inputs_ex and baseRepository = "''octo/repo''"
             and headRepository = "''octo/repo''" and tr = "[]"]
        includes_already_exists
    by (simp add: host_ok_def inputs_ex_def pull7_def parseRepository_def)
  from twice each show ?thesis by (rule conjI)
qed

text \<open>
  C10. On the reconciliation path \<open>pulls[0].number\<close> is read with no guard: when the
  creation failed as already existing and the listing of open pull requests is empty,
  the operation throws the \<open>TypeError\<close> of that read, after the listing and before any
  update request, and returns no result. When the listing has a first element, the
  update request for its number is sent.
\<close>

theorem createOrUpdate_empty_listing:
  fixes octokit inputs baseRepository headRepository tr
  defines "r \<equiv> parseRepository baseRepository"
    and "headBranch \<equiv> js_str (at (split headRepository (CHR ''/'')) 0) @ '':'' @ branch inputs"
  defines "c1 \<equiv> PullsCreate r (title inputs) headBranch headRepository (base inputs)
                   (body inputs) (draft inputs)"
    and "c2 \<equiv> PullsList r ''open'' headBranch (base inputs)"
  assumes failed: "rest_pulls_create octokit tr c1 = Inl e"
    and exists: "includes_str (getErrorMessage e) ''A pull request already exists for''"
  shows
   "(rest_pulls_list octokit (tr @ [c1]) c2 = Inr [] \<longrightarrow>
       createOrUpdate octokit inputs baseRepository headRepository tr =
         (Inl (cannot_read ''undefined'' ''number''), tr @ [c1, c2])) \<and>
    (\<forall>pull0 rest.
       rest_pulls_list octokit (tr @ [c1]) c2 = Inr (pull0 # rest) \<longrightarrow>
       snd (createOrUpdate octokit inputs baseRepository headRepository tr) =
         tr @ [c1, c2, PullsUpdate r (data_number pull0) (title inputs) (body inputs)])"
  using createOrUpdate_reconcile [OF failed [unfolded c1_def headBranch_def r_def] exists]
  unfolding c1_def c2_def headBranch_def r_def
  by (simp add: Let_def)

text \<open>
  The theorem at work: a host that always refuses the creation as already existing, once
  with an empty listing and once with the listing of \<open>host_ok\<close>.
\<close>

theorem createOrUpdate_empty_listing_witness:
  "createOrUpdate
     (host_ok\<lparr>rest_pulls_create := \<lambda>tr c. Inl already_exists, rest_pulls_list := \<lambda>tr c. Inr []\<rparr>)
     inputs_ex ''octo/repo'' ''octo/repo'' [] =
     (Inl (TypeError (''Cannot read properties of undefined (reading '' @ [CHR 0x27] @
                      ''number'' @ [CHR 0x27] @ '')'')),
      [PullsCreate \<lparr>owner = Some ''octo'', repo = Some ''repo''\<rparr> ''Update'' ''octo:feature''
         ''octo/repo'' ''main'' ''Changes'' False,
       PullsList \<lparr>owner = Some ''octo'', repo = Some ''repo''\<rparr> ''open'' ''octo:feature''
         ''main'']) \<and>
   snd (createOrUpdate (host_ok\<lparr>rest_pulls_create := \<lambda>tr c. Inl already_exists\<rparr>)
          inputs_ex ''octo/repo'' ''octo/repo'' []) =
     [PullsCreate \<lparr>owner = Some ''octo'', repo = Some ''repo''\<rparr> ''Update'' ''octo:feature''
        ''octo/repo'' ''main'' ''Changes'' False,
      PullsList \<lparr>owner = Some ''octo'', repo = Some ''repo''\<rparr> ''open'' ''octo:feature''
        ''main'',
      PullsUpdate \<lparr>owner = Some ''octo'', repo = Some ''repo''\<rparr> 7 ''Update'' ''Changes'']"
proof -
  have inc: "includes_str (getErrorMessage already_exists) ''A pull request already exists for''"
    by (simp add: already_exists_def)
  have f1: "rest_pulls_create
              (host_ok\<lparr>rest_pulls_create := \<lambda>tr c. Inl already_exists,
                        rest_pulls_list := \<lambda>tr c. Inr []\<rparr>) tr c = Inl already_exists" for tr c
    by simp
  have f2: "rest_pulls_create (host_ok\<lparr>rest_pulls_create := \<lambda>tr c. Inl already_exists\<rparr>) tr c =
              Inl already_exists" for tr c
    by simp
  show ?thesis
    using createOrUpdate_empty_listing [OF f1 inc, where inputs = inputs_ex
            and baseRepository = "''octo/repo''" and headRepository = "''octo/repo''" and tr = "[]"]
          createOrUpdate_empty_listing [OF f2 inc, where inputs = inputs_ex
            and baseRepository = "''octo/repo''" and headRepository = "''octo/repo''" and tr = "[]"]
    by (simp add: host_ok_def inputs_ex_def pull7_def parseRepository_def cannot_read_def)
qed

text \<open>
  C3. When the branch query answers with no ref and the query of the base answers with a
  ref whose target is \<open>h\<close>, \<open>pushSignedCommit\<close> sends the branch creation for
  \<open>refs/heads/<branch>\<close> at \<open>h\<close> (with the repository id of the base's answer) right
  after the two queries, and the commit mutation, sent only after a successful branch
  creation, has \<open>h\<close> as its expected head. When the branch query answers with a ref whose
  target is \<open>h\<close>, no branch creation is sent and the commit mutation has \<open>h\<close> as its
  expected head. (Without \<open>branchFileChanges\<close> no commit mutation is sent.)
\<close>

theorem pushSignedCommit_expected_head:
  fixes octokit branchRepository b base' commitMessage branchFileChanges tr
  defines "repoOwner \<equiv> at (split branchRepository (CHR ''/'')) 0"
    and "repoName \<equiv> at (split branchRepository (CHR ''/'')) 1"
  defines "q1 \<equiv> GetRefId repoOwner repoName b"
    and "q2 \<equiv> GetRefId repoOwner repoName base'"
    and "push \<equiv> \<lambda>h. case branchFileChanges of
                        None \<Rightarrow> []
                      | Some fc \<Rightarrow>
                          [PushCommit b (js_str repoOwner @ ''/'' @ js_str repoName) h
                             commitMessage
                             \<lparr>additions = additions fc, deletions = deletions fc\<rparr>]"
  shows
   "(\<forall>id0 id1 h.
       graphql_GetRefId octokit tr q1 = Inr \<lparr>repository_id = id0, repository_ref = None\<rparr> \<and>
       graphql_GetRefId octokit (tr @ [q1]) q2 =
         Inr \<lparr>repository_id = id1, repository_ref = Some \<lparr>target_oid = Some h\<rparr>\<rparr> \<longrightarrow>
       snd (pushSignedCommit octokit branchRepository b base' commitMessage branchFileChanges tr) =
         tr @ [q1, q2, CreateNewBranch id1 h (''refs/heads/'' @ b)] @
           (if isl (graphql_CreateNewBranch octokit (tr @ [q1, q2])
                      (CreateNewBranch id1 h (''refs/heads/'' @ b)))
            then [] else push h)) \<and>
    (\<forall>id0 h.
       graphql_GetRefId octokit tr q1 =
         Inr \<lparr>repository_id = id0, repository_ref = Some \<lparr>target_oid = Some h\<rparr>\<rparr> \<longrightarrow>
       snd (pushSignedCommit octokit branchRepository b base' commitMessage branchFileChanges tr) =
         tr @ [q1] @ push h)"
  unfolding q1_def q2_def push_def repoOwner_def repoName_def
  by (auto simp add: pushSignedCommit_def await_def request_def ret_def throw_def Let_def
        oid_of_def split: sum.splits option.splits)

lemma host_ok_refs:
  "graphql_GetRefId host_ok tr (GetRefId ow nm b) =
     Inr \<lparr>repository_id = ''R_1'',
          repository_ref = (if b = ''main'' then Some \<lparr>target_oid = Some ''abc123''\<rparr> else None)\<rparr>"
  "graphql_CreateNewBranch host_ok tr c = Inr ()"
  by (simp_all add: host_ok_def)

text \<open>
  The theorem at work on \<open>host_ok\<close>, where only \<open>main\<close> exists: a push to the new branch
  \<open>feature\<close> from \<open>main\<close>, and a push to \<open>main\<close> itself.
\<close>

theorem pushSignedCommit_expected_head_witness:
  "snd (pushSignedCommit host_ok ''octo/repo'' ''feature'' ''main'' ''Update''
          (Some fileChanges_ex) []) =
     [GetRefId (Some ''octo'') (Some ''repo'') ''feature'',
      GetRefId (Some ''octo'') (Some ''repo'') ''main'',
      CreateNewBranch ''R_1'' ''abc123'' ''refs/heads/feature'',
      PushCommit ''feature'' ''octo/repo'' ''abc123'' ''Update'' fileChanges_ex] \<and>
   snd (pushSignedCommit host_ok ''octo/repo'' ''main'' ''main'' ''Update''
          (Some fileChanges_ex) []) =
     [GetRefId (Some ''octo'') (Some ''repo'') ''main'',
      PushCommit ''main'' ''octo/repo'' ''abc123'' ''Update'' fileChanges_ex]"
  using pushSignedCommit_expected_head
          [where octokit = host_ok and branchRepository = "''octo/repo''" and b = "''feature''"
             and base' = "''main''" and commitMessage = "''Update''"
             and branchFileChanges = "Some fileChanges_ex" and tr = "[]"]
        pushSignedCommit_expected_head
          [where octokit = host_ok and branchRepository = "''octo/repo''" and b = "''main''"
             and base' = "''main''" and commitMessage = "''Update''"
             and branchFileChanges = "Some fileChanges_ex" and tr = "[]"]
  by (simp add: host_ok_refs fileChanges_ex_def)

subsection \<open>createOrUpdatePullRequest\<close>

lemma createOrUpdate_no_requestReviewers:
  "filter is_requestReviewers (snd (createOrUpdate octokit inputs baseRepository headRepository tr)) =
   filter is_requestReviewers tr"
  by (simp add: createOrUpdate_def request_def await_def ret_def throw_def Let_def
           split: sum.splits option.splits)

lemma await_optional_request:
  "await (if b then request endpoint c else ret ()) k tr =
     (if b \<and> isl (endpoint tr c)
      then (Inl (projl (endpoint tr c)), tr @ (if b then [c] else []))
      else k () (tr @ (if b then [c] else [])))"
  by (cases "endpoint tr c") (simp_all add: await_def request_def ret_def)

lemma Some_or_None: "((if c then Some x else None) \<noteq> None) = c"
  by simp

lemma metadata_steps:
  assumes "createOrUpdate octokit inputs baseRepository headRepository tr = (Inr pull, tr1)"
    and "m = IssuesUpdate (parseRepository baseRepository) (number pull) (milestone inputs)"
    and "l = IssuesAddLabels (parseRepository baseRepository) (number pull) (labels inputs)"
    and "a = IssuesAddAssignees (parseRepository baseRepository) (number pull) (assignees inputs)"
    and "v = PullsRequestReviewers (parseRepository baseRepository) (number pull)
                (if reviewers inputs \<noteq> [] then Some (reviewers inputs) else None)
                (if teamReviewers inputs \<noteq> []
                 then Some (stripOrgPrefixFromTeams (teamReviewers inputs)) else None)"
    and "ms = (if milestone inputs \<noteq> 0 then [m] else [])"
    and "ls = (if labels inputs \<noteq> [] then [l] else [])"
    and "as = (if assignees inputs \<noteq> [] then [a] else [])"
    and "vs = (if reviewers inputs \<noteq> [] \<or> teamReviewers inputs \<noteq> [] then [v] else [])"
  shows "createOrUpdatePullRequest octokit inputs baseRepository headRepository tr =
     (if milestone inputs \<noteq> 0 \<and> isl (rest_issues_update octokit tr1 m)
      then (Inl (projl (rest_issues_update octokit tr1 m)), tr1 @ ms)
      else if labels inputs \<noteq> [] \<and> isl (rest_issues_addLabels octokit (tr1 @ ms) l)
      then (Inl (projl (rest_issues_addLabels octokit (tr1 @ ms) l)), tr1 @ ms @ ls)
      else if assignees inputs \<noteq> [] \<and>
              isl (rest_issues_addAssignees octokit (tr1 @ ms @ ls) a)
      then (Inl (projl (rest_issues_addAssignees octokit (tr1 @ ms @ ls) a)),
            tr1 @ ms @ ls @ as)
      else if (reviewers inputs \<noteq> [] \<or> teamReviewers inputs \<noteq> []) \<and>
              isl (rest_pulls_requestReviewers octokit (tr1 @ ms @ ls @ as) v)
      then (Inl (projl (rest_pulls_requestReviewers octokit (tr1 @ ms @ ls @ as) v)),
            tr1 @ ms @ ls @ as @ vs)
      else (Inr pull, tr1 @ ms @ ls @ as @ vs))"
proof -
  have "createOrUpdatePullRequest octokit inputs baseRepository headRepository tr =
     await (if milestone inputs \<noteq> 0 then request (rest_issues_update octokit) m else ret ())
       (\<lambda>_. await (if labels inputs \<noteq> [] then request (rest_issues_addLabels octokit) l
                   else ret ())
       (\<lambda>_. await (if assignees inputs \<noteq> [] then request (rest_issues_addAssignees octokit) a
                   else ret ())
       (\<lambda>_. await (if reviewers inputs \<noteq> [] \<or> teamReviewers inputs \<noteq> []
                   then request (rest_pulls_requestReviewers octokit) v else ret ())
       (\<lambda>_. ret pull)))) tr1"
    unfolding createOrUpdatePullRequest_def Let_def length_greater_0_conv Some_or_None
      assms(2-5)
    by (subst await_def) (simp add: assms(1))
  also have "\<dots> =
     (if milestone inputs \<noteq> 0 \<and> isl (rest_issues_update octokit tr1 m)
      then (Inl (projl (rest_issues_update octokit tr1 m)), tr1 @ ms)
      else if labels inputs \<noteq> [] \<and> isl (rest_issues_addLabels octokit (tr1 @ ms) l)
      then (Inl (projl (rest_issues_addLabels octokit (tr1 @ ms) l)), tr1 @ ms @ ls)
      else if assignees inputs \<noteq> [] \<and>
              isl (rest_issues_addAssignees octokit (tr1 @ ms @ ls) a)
      then (Inl (projl (rest_issues_addAssignees octokit (tr1 @ ms @ ls) a)),
            tr1 @ ms @ ls @ as)
      else if (reviewers inputs \<noteq> [] \<or> teamReviewers inputs \<noteq> []) \<and>
              isl (rest_pulls_requestReviewers octokit (tr1 @ ms @ ls @ as) v)
      then (Inl (projl (rest_pulls_requestReviewers octokit (tr1 @ ms @ ls @ as) v)),
            tr1 @ ms @ ls @ as @ vs)
      else (Inr pull, tr1 @ ms @ ls @ as @ vs))"
    unfolding await_optional_request ret_def append_assoc
      assms(6) [symmetric] assms(7) [symmetric] assms(8) [symmetric] assms(9) [symmetric]
    by (rule refl)
  finally show ?thesis .
qed

lemma chain_reached:
  assumes "R = (if c1 then (Inl e1, T1) else if c2 then (Inl e2, T2)
                else if c3 then (Inl e3, T3) else if c4 then (Inl e4, T4) else (Inr x, T5))"
  shows "snd R = T1 \<or> snd R = T2 \<or> snd R = T3 \<or> snd R = T4 \<or> snd R = T5"
  using assms by (auto split: if_splits)

lemma chain_returned:
  assumes "R = (if c1 then (Inl e1, T1) else if c2 then (Inl e2, T2)
                else if c3 then (Inl e3, T3) else if c4 then (Inl e4, T4) else (Inr x, T5))"
    and "fst R = Inr p"
  shows "p = x \<and> snd R = T5"
  using assms by (auto split: if_splits)

lemma createOrUpdatePullRequest_failed_early:
  assumes "createOrUpdate octokit inputs baseRepository headRepository tr = (Inl e, tr1)"
  shows "createOrUpdatePullRequest octokit inputs baseRepository headRepository tr = (Inl e, tr1)"
  using assms by (simp add: createOrUpdatePullRequest_def await_def)

lemma stripOrgPrefix_prefixed:
  assumes "CHR ''/'' \<notin> set org"
  shows "stripOrgPrefix (org @ ''/'' @ name) = name"
proof -
  have "dropWhile (\<lambda>c. c \<noteq> CHR ''/'') (org @ CHR ''/'' # name) =
        dropWhile (\<lambda>c. c \<noteq> CHR ''/'') (CHR ''/'' # name)"
    using assms by (intro dropWhile_append2) auto
  then show ?thesis by (simp add: stripOrgPrefix_def)
qed

text \<open>
  C8. After \<open>createOrUpdate\<close> has returned a pull request, the requests that
  \<open>createOrUpdatePullRequest\<close> sends are an initial part of the fixed sequence: milestone
  (when non-zero), labels (when any), assignees (when any), reviewer request (when there
  is a user or a team reviewer), each a request of its own. The whole sequence is sent
  when the operation returns, and when every step succeeds it returns. Nothing is sent
  after a failing step, so no request undoes an earlier one: when the milestone request
  succeeds and the labels request fails, the requests sent are the milestone and the
  labels requests, and the error of the labels request is the outcome.
\<close>

theorem createOrUpdatePullRequest_metadata_in_order:
  fixes octokit inputs baseRepository headRepository tr pull tr1
  defines "r \<equiv> parseRepository baseRepository"
  defines "m \<equiv> IssuesUpdate r (number pull) (milestone inputs)"
    and "l \<equiv> IssuesAddLabels r (number pull) (labels inputs)"
    and "a \<equiv> IssuesAddAssignees r (number pull) (assignees inputs)"
    and "v \<equiv> PullsRequestReviewers r (number pull)
                (if reviewers inputs \<noteq> [] then Some (reviewers inputs) else None)
                (if teamReviewers inputs \<noteq> []
                 then Some (stripOrgPrefixFromTeams (teamReviewers inputs)) else None)"
  defines "ms \<equiv> (if milestone inputs \<noteq> 0 then [m] else [])"
    and "ls \<equiv> (if labels inputs \<noteq> [] then [l] else [])"
    and "as \<equiv> (if assignees inputs \<noteq> [] then [a] else [])"
    and "vs \<equiv> (if reviewers inputs \<noteq> [] \<or> teamReviewers inputs \<noteq> [] then [v] else [])"
  assumes reconciled:
    "createOrUpdate octokit inputs baseRepository headRepository tr = (Inr pull, tr1)"
  shows
   "prefix tr1 (snd (createOrUpdatePullRequest octokit inputs baseRepository headRepository tr)) \<and>
    prefix (snd (createOrUpdatePullRequest octokit inputs baseRepository headRepository tr))
      (tr1 @ ms @ ls @ as @ vs) \<and>
    (\<forall>p. fst (createOrUpdatePullRequest octokit inputs baseRepository headRepository tr) = Inr p
        \<longrightarrow> p = pull \<and>
            snd (createOrUpdatePullRequest octokit inputs baseRepository headRepository tr) =
              tr1 @ ms @ ls @ as @ vs) \<and>
    (rest_issues_update octokit tr1 m = Inr () \<and>
     rest_issues_addLabels octokit (tr1 @ ms) l = Inr () \<and>
     rest_issues_addAssignees octokit (tr1 @ ms @ ls) a = Inr () \<and>
     rest_pulls_requestReviewers octokit (tr1 @ ms @ ls @ as) v = Inr () \<longrightarrow>
       createOrUpdatePullRequest octokit inputs baseRepository headRepository tr =
         (Inr pull, tr1 @ ms @ ls @ as @ vs)) \<and>
    (\<forall>e. milestone inputs \<noteq> 0 \<and> rest_issues_update octokit tr1 m = Inr () \<and>
         labels inputs \<noteq> [] \<and> rest_issues_addLabels octokit (tr1 @ [m]) l = Inl e \<longrightarrow>
         createOrUpdatePullRequest octokit inputs baseRepository headRepository tr =
           (Inl e, tr1 @ [m, l]))"
proof -
  note chain = metadata_steps [OF reconciled
      m_def [unfolded r_def, THEN meta_eq_to_obj_eq]
      l_def [unfolded r_def, THEN meta_eq_to_obj_eq]
      a_def [unfolded r_def, THEN meta_eq_to_obj_eq]
      v_def [unfolded r_def, THEN meta_eq_to_obj_eq]
      ms_def [THEN meta_eq_to_obj_eq] ls_def [THEN meta_eq_to_obj_eq]
      as_def [THEN meta_eq_to_obj_eq] vs_def [THEN meta_eq_to_obj_eq]]
  have reached:
    "snd (createOrUpdatePullRequest octokit inputs baseRepository headRepository tr) = tr1 @ ms \<or>
     snd (createOrUpdatePullRequest octokit inputs baseRepository headRepository tr) =
       tr1 @ ms @ ls \<or>
     snd (createOrUpdatePullRequest octokit inputs baseRepository headRepository tr) =
       tr1 @ ms @ ls @ as \<or>
     snd (createOrUpdatePullRequest octokit inputs baseRepository headRepository tr) =
       tr1 @ ms @ ls @ as @ vs \<or>
     snd (createOrUpdatePullRequest octokit inputs baseRepository headRepository tr) =
       tr1 @ ms @ ls @ as @ vs"
    by (rule chain_reached [OF chain])
  have grows:
    "prefix tr1 (snd (createOrUpdatePullRequest octokit inputs baseRepository headRepository tr))"
    using reached by (elim disjE) simp_all
  have bounded:
    "prefix (snd (createOrUpdatePullRequest octokit inputs baseRepository headRepository tr))
       (tr1 @ ms @ ls @ as @ vs)"
    using reached by (elim disjE) simp_all
  have returned:
    "p = pull \<and>
     snd (createOrUpdatePullRequest octokit inputs baseRepository headRepository tr) =
       tr1 @ ms @ ls @ as @ vs"
    if "fst (createOrUpdatePullRequest octokit inputs baseRepository headRepository tr) = Inr p"
    for p
    by (rule chain_returned [OF chain that])
  have complete:
    "createOrUpdatePullRequest octokit inputs baseRepository headRepository tr =
       (Inr pull, tr1 @ ms @ ls @ as @ vs)"
    if "rest_issues_update octokit tr1 m = Inr ()"
       "rest_issues_addLabels octokit (tr1 @ ms) l = Inr ()"
       "rest_issues_addAssignees octokit (tr1 @ ms @ ls) a = Inr ()"
       "rest_pulls_requestReviewers octokit (tr1 @ ms @ ls @ as) v = Inr ()"
    using that by (simp add: chain)
  have labels_fail:
    "createOrUpdatePullRequest octokit inputs baseRepository headRepository tr =
       (Inl e, tr1 @ [m, l])"
    if "milestone inputs \<noteq> 0" "rest_issues_update octokit tr1 m = Inr ()"
       "labels inputs \<noteq> []" "rest_issues_addLabels octokit (tr1 @ [m]) l = Inl e" for e
  proof -
    from that have "ms = [m]" "ls = [l]"
      by (simp_all add: ms_def ls_def)
    with that show ?thesis by (simp add: chain)
  qed
  from grows bounded returned complete labels_fail show ?thesis by blast
qed

lemma host_ok_create [simp]: "rest_pulls_create host_ok [] c = Inr pull7"
  by (simp add: host_ok_def)

lemma request_ex:
  "parseRepository ''octo/repo'' = \<lparr>owner = Some ''octo'', repo = Some ''repo''\<rparr>"
  "js_str (at (split ''octo/repo'' (CHR ''/'')) 0) @ '':'' @ branch inputs_ex = ''octo:feature''"
  by (simp_all add: parseRepository_def inputs_ex_def)

lemma host_ok_metadata [simp]:
  "rest_issues_update host_ok tr c = Inr ()"
  "rest_issues_addLabels host_ok tr c = Inr ()"
  "rest_issues_addAssignees host_ok tr c = Inr ()"
  "rest_pulls_requestReviewers host_ok tr c = Inr ()"
  by (simp_all add: host_ok_def)

lemma host_labels_refused_simps [simp]:
  "rest_pulls_create host_labels_refused = rest_pulls_create host_ok"
  "rest_issues_update host_labels_refused tr c = Inr ()"
  "rest_issues_addLabels host_labels_refused tr c = Inl (Error ''Validation Failed'')"
  by (simp_all add: host_labels_refused_def)

lemma createOrUpdate_host_ok:
  "createOrUpdate host_ok inputs_ex ''octo/repo'' ''octo/repo'' [] =
     (Inr \<lparr>number = 7, html_url = ''https://host/octo/repo/pull/7'', created = True\<rparr>,
      [PullsCreate \<lparr>owner = Some ''octo'', repo = Some ''repo''\<rparr> ''Update'' ''octo:feature''
         ''octo/repo'' ''main'' ''Changes'' False])"
  using createOrUpdate_created [of host_ok "[]" "''octo/repo''" inputs_ex "''octo/repo''" pull7]
  by (simp add: request_ex) (simp add: inputs_ex_def pull7_def)

lemma createOrUpdate_labels_refused:
  "createOrUpdate host_labels_refused inputs_ex ''octo/repo'' ''octo/repo'' [] =
     (Inr \<lparr>number = 7, html_url = ''https://host/octo/repo/pull/7'', created = True\<rparr>,
      [PullsCreate \<lparr>owner = Some ''octo'', repo = Some ''repo''\<rparr> ''Update'' ''octo:feature''
         ''octo/repo'' ''main'' ''Changes'' False])"
  using createOrUpdate_created [of host_labels_refused "[]" "''octo/repo''" inputs_ex
          "''octo/repo''" pull7]
  by (simp add: request_ex) (simp add: inputs_ex_def pull7_def)

lemma strip_ex: "stripOrgPrefixFromTeams [''org/team-name''] = [''team-name'']"
  by (simp add: stripOrgPrefixFromTeams_def stripOrgPrefix_def)

lemma inputs_ex_fields:
  "milestone inputs_ex = 3" "labels inputs_ex = [''bot'']"
  "assignees inputs_ex = [''alice'']" "reviewers inputs_ex = [''bob'']"
  "teamReviewers inputs_ex = [''org/team-name'']"
  by (simp_all add: inputs_ex_def)

text \<open>
  The theorem at work: on \<open>host_ok\<close> all four requests follow the creation, in order;
  on \<open>host_labels_refused\<close> the labels request is the last one sent, after the
  milestone request.
\<close>

theorem createOrUpdatePullRequest_metadata_in_order_witness:
  "createOrUpdatePullRequest host_ok inputs_ex ''octo/repo'' ''octo/repo'' [] =
     (Inr \<lparr>number = 7, html_url = ''https://host/octo/repo/pull/7'', created = True\<rparr>,
      [PullsCreate \<lparr>owner = Some ''octo'', repo = Some ''repo''\<rparr> ''Update'' ''octo:feature''
         ''octo/repo'' ''main'' ''Changes'' False,
       IssuesUpdate \<lparr>owner = Some ''octo'', repo = Some ''repo''\<rparr> 7 3,
       IssuesAddLabels \<lparr>owner = Some ''octo'', repo = Some ''repo''\<rparr> 7 [''bot''],
       IssuesAddAssignees \<lparr>owner = Some ''octo'', repo = Some ''repo''\<rparr> 7 [''alice''],
       PullsRequestReviewers \<lparr>owner = Some ''octo'', repo = Some ''repo''\<rparr> 7
         (Some [''bob'']) (Some [''team-name''])]) \<and>
   createOrUpdatePullRequest host_labels_refused inputs_ex ''octo/repo'' ''octo/repo'' [] =
     (Inl (Error ''Validation Failed''),
      [PullsCreate \<lparr>owner = Some ''octo'', repo = Some ''repo''\<rparr> ''Update'' ''octo:feature''
         ''octo/repo'' ''main'' ''Changes'' False,
       IssuesUpdate \<lparr>owner = Some ''octo'', repo = Some ''repo''\<rparr> 7 3,
       IssuesAddLabels \<lparr>owner = Some ''octo'', repo = Some ''repo''\<rparr> 7 [''bot'']])"
proof -
  have fields: "milestone inputs_ex = 3" "labels inputs_ex = [''bot'']"
    "assignees inputs_ex = [''alice'']" "reviewers inputs_ex = [''bob'']"
    "teamReviewers inputs_ex = [''org/team-name'']"
    by (simp_all add: inputs_ex_def)
  note returns = createOrUpdatePullRequest_metadata_in_order [OF createOrUpdate_host_ok,
      THEN conjunct2, THEN conjunct2, THEN conjunct2, THEN conjunct1, rule_format]
  have "rest_issues_update host_ok t1 c1 = Inr () \<and>
        rest_issues_addLabels host_ok t2 c2 = Inr () \<and>
        rest_issues_addAssignees host_ok t3 c3 = Inr () \<and>
        rest_pulls_requestReviewers host_ok t4 c4 = Inr ()" for t1 c1 t2 c2 t3 c3 t4 c4
    by simp
  from returns [OF this]
  have ok: "createOrUpdatePullRequest host_ok inputs_ex ''octo/repo'' ''octo/repo'' [] =
     (Inr \<lparr>number = 7, html_url = ''https://host/octo/repo/pull/7'', created = True\<rparr>,
      [PullsCreate \<lparr>owner = Some ''octo'', repo = Some ''repo''\<rparr> ''Update'' ''octo:feature''
         ''octo/repo'' ''main'' ''Changes'' False,
       IssuesUpdate \<lparr>owner = Some ''octo'', repo = Some ''repo''\<rparr> 7 3,
       IssuesAddLabels \<lparr>owner = Some ''octo'', repo = Some ''repo''\<rparr> 7 [''bot''],
       IssuesAddAssignees \<lparr>owner = Some ''octo'', repo = Some ''repo''\<rparr> 7 [''alice''],
       PullsRequestReviewers \<lparr>owner = Some ''octo'', repo = Some ''repo''\<rparr> 7
         (Some [''bob'']) (Some [''team-name''])])"
    by (simp add: fields request_ex strip_ex)
  note fails = createOrUpdatePullRequest_metadata_in_order [OF createOrUpdate_labels_refused,
      THEN conjunct2, THEN conjunct2, THEN conjunct2, THEN conjunct2, rule_format]
  have "milestone inputs_ex \<noteq> 0 \<and> rest_issues_update host_labels_refused t1 c1 = Inr () \<and>
        labels inputs_ex \<noteq> [] \<and>
        rest_issues_addLabels host_labels_refused t2 c2 = Inl (Error ''Validation Failed'')"
    for t1 c1 t2 c2
    by (simp add: fields)
  from fails [OF this]
  have refused:
    "createOrUpdatePullRequest host_labels_refused inputs_ex ''octo/repo'' ''octo/repo'' [] =
     (Inl (Error ''Validation Failed''),
      [PullsCreate \<lparr>owner = Some ''octo'', repo = Some ''repo''\<rparr> ''Update'' ''octo:feature''
         ''octo/repo'' ''main'' ''Changes'' False,
       IssuesUpdate \<lparr>owner = Some ''octo'', repo = Some ''repo''\<rparr> 7 3,
       IssuesAddLabels \<lparr>owner = Some ''octo'', repo = Some ''repo''\<rparr> 7 [''bot'']])"
    by (simp add: fields request_ex)
  from ok refused show ?thesis by (rule conjI)
qed

text \<open>
  C7. \<open>createOrUpdatePullRequest\<close> sends at most one reviewer request. It sends none when
  both the reviewers and the team reviewers are empty, and exactly one when it returns
  and one of the two lists is not empty. The request carries the user reviewers as they
  are and the team reviewers through \<open>stripOrgPrefixFromTeams\<close> (a key is absent when its
  list is empty), which keeps the number of teams and turns \<open>org/name\<close> into \<open>name\<close>.
\<close>

theorem requestReviewers_once:
  fixes octokit inputs baseRepository headRepository tr
  defines "v \<equiv> \<lambda>n. PullsRequestReviewers (parseRepository baseRepository) n
                (if reviewers inputs \<noteq> [] then Some (reviewers inputs) else None)
                (if teamReviewers inputs \<noteq> []
                 then Some (stripOrgPrefixFromTeams (teamReviewers inputs)) else None)"
    and "sent \<equiv> filter is_requestReviewers
                  (snd (createOrUpdatePullRequest octokit inputs baseRepository headRepository tr))"
  shows
   "(reviewers inputs = [] \<and> teamReviewers inputs = [] \<longrightarrow>
       sent = filter is_requestReviewers tr) \<and>
    (sent = filter is_requestReviewers tr \<or>
     (\<exists>n. sent = filter is_requestReviewers tr @ [v n])) \<and>
    (\<forall>p. fst (createOrUpdatePullRequest octokit inputs baseRepository headRepository tr) = Inr p \<and>
         (reviewers inputs \<noteq> [] \<or> teamReviewers inputs \<noteq> []) \<longrightarrow>
         sent = filter is_requestReviewers tr @ [v (number p)]) \<and>
    length (stripOrgPrefixFromTeams (teamReviewers inputs)) = length (teamReviewers inputs) \<and>
    (\<forall>i org name.
       i < length (teamReviewers inputs) \<and> teamReviewers inputs ! i = org @ ''/'' @ name \<and>
       CHR ''/'' \<notin> set org \<longrightarrow>
       stripOrgPrefixFromTeams (teamReviewers inputs) ! i = name)"
proof (cases "createOrUpdate octokit inputs baseRepository headRepository tr")
  case (Pair res tr1)
  have none: "filter is_requestReviewers tr1 = filter is_requestReviewers tr"
    using createOrUpdate_no_requestReviewers
            [of octokit inputs baseRepository headRepository tr] Pair
    by simp
  have strip: "\<forall>i org name.
       i < length (teamReviewers inputs) \<and> teamReviewers inputs ! i = org @ ''/'' @ name \<and>
       CHR ''/'' \<notin> set org \<longrightarrow>
       stripOrgPrefixFromTeams (teamReviewers inputs) ! i = name"
    using stripOrgPrefix_prefixed by (simp add: stripOrgPrefixFromTeams_def)
  have len: "length (stripOrgPrefixFromTeams (teamReviewers inputs)) =
               length (teamReviewers inputs)"
    by (simp add: stripOrgPrefixFromTeams_def)
  have main:
    "(reviewers inputs = [] \<and> teamReviewers inputs = [] \<longrightarrow>
        sent = filter is_requestReviewers tr) \<and>
     (sent = filter is_requestReviewers tr \<or>
      (\<exists>n. sent = filter is_requestReviewers tr @ [v n])) \<and>
     (\<forall>p. fst (createOrUpdatePullRequest octokit inputs baseRepository headRepository tr) =
             Inr p \<and>
          (reviewers inputs \<noteq> [] \<or> teamReviewers inputs \<noteq> []) \<longrightarrow>
          sent = filter is_requestReviewers tr @ [v (number p)])"
  proof (cases res)
    case (Inl e)
    with Pair have "createOrUpdatePullRequest octokit inputs baseRepository headRepository tr =
                      (Inl e, tr1)"
      by (simp add: createOrUpdatePullRequest_failed_early)
    with none show ?thesis
      unfolding sent_def by simp
  next
    case (Inr pull)
    with Pair have created:
      "createOrUpdate octokit inputs baseRepository headRepository tr = (Inr pull, tr1)"
      by simp
    define m where "m = IssuesUpdate (parseRepository baseRepository) (number pull)
                          (milestone inputs)"
    define l where "l = IssuesAddLabels (parseRepository baseRepository) (number pull)
                          (labels inputs)"
    define a where "a = IssuesAddAssignees (parseRepository baseRepository) (number pull)
                          (assignees inputs)"
    define ms where "ms = (if milestone inputs \<noteq> 0 then [m] else [])"
    define ls where "ls = (if labels inputs \<noteq> [] then [l] else [])"
    define as where "as = (if assignees inputs \<noteq> [] then [a] else [])"
    define vs where
      "vs = (if reviewers inputs \<noteq> [] \<or> teamReviewers inputs \<noteq> [] then [v (number pull)]
             else [])"
    have v: "v (number pull) =
               PullsRequestReviewers (parseRepository baseRepository) (number pull)
                (if reviewers inputs \<noteq> [] then Some (reviewers inputs) else None)
                (if teamReviewers inputs \<noteq> []
                 then Some (stripOrgPrefixFromTeams (teamReviewers inputs)) else None)"
      by (simp add: v_def)
    note chain = metadata_steps [OF created m_def l_def a_def v ms_def ls_def as_def vs_def]
    have f: "filter is_requestReviewers (tr1 @ ms) = filter is_requestReviewers tr"
      "filter is_requestReviewers (tr1 @ ms @ ls) = filter is_requestReviewers tr"
      "filter is_requestReviewers (tr1 @ ms @ ls @ as) = filter is_requestReviewers tr"
      "filter is_requestReviewers (tr1 @ ms @ ls @ as @ vs) = filter is_requestReviewers tr @ vs"
      by (simp_all add: none ms_def ls_def as_def vs_def m_def l_def a_def v_def)
    have sent: "sent = filter is_requestReviewers tr \<or> sent = filter is_requestReviewers tr @ vs"
      using chain_reached [OF chain] unfolding sent_def
      by (elim disjE) (simp_all add: f del: filter_append)
    have ok: "p = pull \<and> sent = filter is_requestReviewers tr @ vs"
      if "fst (createOrUpdatePullRequest octokit inputs baseRepository headRepository tr) = Inr p"
      for p
      using chain_returned [OF chain that] unfolding sent_def
      by (simp add: f del: filter_append)
    have c1: "reviewers inputs = [] \<and> teamReviewers inputs = [] \<longrightarrow>
        sent = filter is_requestReviewers tr"
      using sent by (auto simp add: vs_def)
    have c2: "sent = filter is_requestReviewers tr \<or>
      (\<exists>n. sent = filter is_requestReviewers tr @ [v n])"
      using sent by (auto simp add: vs_def split: if_splits)
    have c3: "\<forall>p. fst (createOrUpdatePullRequest octokit inputs baseRepository headRepository tr) =
             Inr p \<and>
          (reviewers inputs \<noteq> [] \<or> teamReviewers inputs \<noteq> []) \<longrightarrow>
          sent = filter is_requestReviewers tr @ [v (number p)]"
      using ok by (auto simp add: vs_def)
    from c1 c2 c3 show ?thesis by blast
  qed
  with strip len show ?thesis by blast
qed

lemma createOrUpdatePullRequest_host_ok:
  "fst (createOrUpdatePullRequest host_ok inputs_ex ''octo/repo'' ''octo/repo'' []) =
     Inr \<lparr>number = 7, html_url = ''https://host/octo/repo/pull/7'', created = True\<rparr>"
  unfolding metadata_steps [OF createOrUpdate_host_ok refl refl refl refl refl refl refl refl]
  by simp

text \<open>
  The theorem at work on \<open>host_ok\<close>: one reviewer request, with \<open>bob\<close> as given and the
  team \<open>org/team-name\<close> as \<open>team-name\<close>; none when both lists are empty.
\<close>

theorem requestReviewers_once_witness:
  "filter is_requestReviewers
     (snd (createOrUpdatePullRequest host_ok inputs_ex ''octo/repo'' ''octo/repo'' [])) =
     [PullsRequestReviewers \<lparr>owner = Some ''octo'', repo = Some ''repo''\<rparr> 7
        (Some [''bob'']) (Some [''team-name''])] \<and>
   filter is_requestReviewers
     (snd (createOrUpdatePullRequest host_ok (inputs_ex\<lparr>reviewers := [], teamReviewers := []\<rparr>)
             ''octo/repo'' ''octo/repo'' [])) = [] \<and>
   stripOrgPrefixFromTeams (teamReviewers inputs_ex) ! 0 = ''team-name''"
proof -
  note sent = requestReviewers_once [where octokit = host_ok and inputs = inputs_ex
      and baseRepository = "''octo/repo''" and headRepository = "''octo/repo''" and tr = "[]"]
  have "fst (createOrUpdatePullRequest host_ok inputs_ex ''octo/repo'' ''octo/repo'' []) =
          Inr \<lparr>number = 7, html_url = ''https://host/octo/repo/pull/7'', created = True\<rparr> \<and>
        (reviewers inputs_ex \<noteq> [] \<or> teamReviewers inputs_ex \<noteq> [])"
    by (simp add: createOrUpdatePullRequest_host_ok inputs_ex_fields)
  from sent [THEN conjunct2, THEN conjunct2, THEN conjunct1, rule_format, OF this]
  have one: "filter is_requestReviewers
     (snd (createOrUpdatePullRequest host_ok inputs_ex ''octo/repo'' ''octo/repo'' [])) =
     [PullsRequestReviewers \<lparr>owner = Some ''octo'', repo = Some ''repo''\<rparr> 7
        (Some [''bob'']) (Some [''team-name''])]"
    by (simp add: inputs_ex_fields request_ex strip_ex)
  have "0 < length (teamReviewers inputs_ex) \<and>
        teamReviewers inputs_ex ! 0 = ''org'' @ ''/'' @ ''team-name'' \<and>
        CHR ''/'' \<notin> set ''org''"
    by (simp add: inputs_ex_fields)
  from sent [THEN conjunct2, THEN conjunct2, THEN conjunct2, THEN conjunct2, rule_format,
             OF this]
  have strip: "stripOrgPrefixFromTeams (teamReviewers inputs_ex) ! 0 = ''team-name''" .
  have "reviewers (inputs_ex\<lparr>reviewers := [], teamReviewers := []\<rparr>) = [] \<and>
        teamReviewers (inputs_ex\<lparr>reviewers := [], teamReviewers := []\<rparr>) = []"
    by simp
  from requestReviewers_once [where octokit = host_ok
         and inputs = "inputs_ex\<lparr>reviewers := [], teamReviewers := []\<rparr>"
         and baseRepository = "''octo/repo''" and headRepository = "''octo/repo''" and tr = "[]",
         THEN conjunct1, rule_format, OF this]
  have none: "filter is_requestReviewers
     (snd (createOrUpdatePullRequest host_ok (inputs_ex\<lparr>reviewers := [], teamReviewers := []\<rparr>)
             ''octo/repo'' ''octo/repo'' [])) = []"
    by simp
  from one none strip show ?thesis by blast
qed

subsection \<open>Refs and commits\<close>

lemma createOrUpdateRef_eq:
  "createOrUpdateRef octokit R b h tr =
     (let r = parseRepository R; g = GitGetRef r b
      in if isl (rest_git_getRef octokit tr g)
         then (rest_git_createRef octokit (tr @ [g]) (GitCreateRef r h (''refs/heads/'' @ b)),
               tr @ [g, GitCreateRef r h (''refs/heads/'' @ b)])
         else (rest_git_updateRef octokit (tr @ [g]) (GitUpdateRef r h (''heads/'' @ b) None),
               tr @ [g, GitUpdateRef r h (''heads/'' @ b) None]))"
  by (simp add: createOrUpdateRef_def request_def Let_def split: sum.splits)

text \<open>
  C5. \<open>createOrUpdateRef\<close> sends two requests: the read of the ref \<open>branch\<close>, then, when
  the read succeeded, the update of \<open>heads/<branch>\<close> to the new head with no \<open>force\<close>,
  and when the read failed, the creation of \<open>refs/heads/<branch>\<close> at the new head.
\<close>

theorem createOrUpdateRef_one_write:
  "snd (createOrUpdateRef octokit R b h tr) =
     tr @ [GitGetRef (parseRepository R) b,
           if isl (rest_git_getRef octokit tr (GitGetRef (parseRepository R) b))
           then GitCreateRef (parseRepository R) h (''refs/heads/'' @ b)
           else GitUpdateRef (parseRepository R) h (''heads/'' @ b) None]"
  by (simp add: createOrUpdateRef_eq Let_def)

text \<open>
  C9. With no commit, \<open>pushSignedCommits\<close> still reads the ref and sends one update or
  creation of the ref, whose target is the empty string.
\<close>

theorem pushSignedCommits_empty:
  "snd (pushSignedCommits octokit rd [] repoPath R b tr) =
     tr @ [GitGetRef (parseRepository R) b,
           if isl (rest_git_getRef octokit tr (GitGetRef (parseRepository R) b))
           then GitCreateRef (parseRepository R) '''' (''refs/heads/'' @ b)
           else GitUpdateRef (parseRepository R) '''' (''heads/'' @ b) None]"
  by (simp add: pushSignedCommits_def await_def createOrUpdateRef_eq Let_def)

lemma createCommit_no_changes:
  assumes "changes commit = []"
  shows "createCommit octokit readFileBase64 commit repoPath branchRepository tr =
           (rest_git_createCommit octokit tr
              (GitCreateCommit (parseRepository branchRepository) (parents commit) (tree commit)
                 (subject commit @ [CHR 0x0A, CHR 0x0A] @ commit_body commit)),
            tr @ [GitCreateCommit (parseRepository branchRepository) (parents commit)
                    (tree commit)
                    (subject commit @ [CHR 0x0A, CHR 0x0A] @ commit_body commit)])"
  using assms by (simp add: createCommit_def await_def ret_def request_def Let_def)

lemma loop_no_changes:
  assumes "\<forall>c \<in> set cs. changes c = []"
    and "length hashes = length cs"
    and "\<forall>i < length cs.
           rest_git_createCommit octokit
             (tr @ take i (map (\<lambda>c. GitCreateCommit (parseRepository R) (parents c) (tree c)
                                 (subject c @ [CHR 0x0A, CHR 0x0A] @ commit_body c)) cs))
             (GitCreateCommit (parseRepository R) (parents (cs ! i)) (tree (cs ! i))
                (subject (cs ! i) @ [CHR 0x0A, CHR 0x0A] @ commit_body (cs ! i))) =
           Inr (hashes ! i)"
  shows "pushSignedCommits_loop octokit rd cs repoPath R h tr =
           (Inr (last (h # hashes)),
            tr @ map (\<lambda>c. GitCreateCommit (parseRepository R) (parents c) (tree c)
                            (subject c @ [CHR 0x0A, CHR 0x0A] @ commit_body c)) cs)"
  using assms
proof (induction cs arbitrary: h tr hashes)
  case Nil
  then show ?case by simp
next
  case (Cons c cs)
  let ?cc = "\<lambda>c. GitCreateCommit (parseRepository R) (parents c) (tree c)
                               (subject c @ [CHR 0x0A, CHR 0x0A] @ commit_body c)"
  from Cons.prems(2) obtain h1 hs where hashes: "hashes = h1 # hs" and len: "length hs = length cs"
    by (cases hashes) simp_all
  from Cons.prems(1) have c: "changes c = []" and cs: "\<forall>c \<in> set cs. changes c = []"
    by simp_all
  from Cons.prems(3) [rule_format, of 0] hashes
  have first: "rest_git_createCommit octokit tr (?cc c) = Inr h1"
    by simp
  have later: "\<forall>i < length cs.
      rest_git_createCommit octokit ((tr @ [?cc c]) @ take i (map ?cc cs)) (?cc (cs ! i)) =
      Inr (hs ! i)"
  proof (intro allI impI)
    fix i assume "i < length cs"
    with Cons.prems(3) [rule_format, of "Suc i"] hashes
    show "rest_git_createCommit octokit ((tr @ [?cc c]) @ take i (map ?cc cs)) (?cc (cs ! i)) =
          Inr (hs ! i)"
      by simp
  qed
  from Cons.IH [OF cs len later, of h1]
  have "pushSignedCommits_loop octokit rd cs repoPath R h1 (tr @ [?cc c]) =
          (Inr (last (h1 # hs)), (tr @ [?cc c]) @ map ?cc cs)" .
  with first hashes show ?case
    by (simp add: createCommit_no_changes [OF c])
qed

text \<open>
  C1 (as amended). For a list of local commits with no changes, when the host answers
  each commit creation with a hash, \<open>pushSignedCommits\<close> sends one commit creation for each
  local commit, in order, each with the parents and the tree that the local commit
  declares; then it reads the ref and sends one update or creation of the ref, whose
  target is the hash of the last answer (the empty string when the list is empty).
\<close>

theorem pushSignedCommits_no_changes:
  fixes octokit readFileBase64 branchCommits repoPath branchRepository b tr hashes
  defines "r \<equiv> parseRepository branchRepository"
  defines "creations \<equiv>
             map (\<lambda>c. GitCreateCommit r (parents c) (tree c)
                        (subject c @ [CHR 0x0A, CHR 0x0A] @ commit_body c)) branchCommits"
  assumes empty: "\<forall>c \<in> set branchCommits. changes c = []"
    and count: "length hashes = length branchCommits"
    and created: "\<forall>i < length branchCommits.
                    rest_git_createCommit octokit (tr @ take i creations) (creations ! i) =
                    Inr (hashes ! i)"
  shows "snd (pushSignedCommits octokit readFileBase64 branchCommits repoPath branchRepository
                b tr) =
           tr @ creations @
             [GitGetRef r b,
              if isl (rest_git_getRef octokit (tr @ creations) (GitGetRef r b))
              then GitCreateRef r (last ('''' # hashes)) (''refs/heads/'' @ b)
              else GitUpdateRef r (last ('''' # hashes)) (''heads/'' @ b) None]"
proof -
  from created have "\<forall>i < length branchCommits.
           rest_git_createCommit octokit
             (tr @ take i (map (\<lambda>c. GitCreateCommit (parseRepository branchRepository)
                                 (parents c) (tree c)
                                 (subject c @ [CHR 0x0A, CHR 0x0A] @ commit_body c))
                             branchCommits))
             (GitCreateCommit (parseRepository branchRepository) (parents (branchCommits ! i))
                (tree (branchCommits ! i))
                (subject (branchCommits ! i) @ [CHR 0x0A, CHR 0x0A] @
                 commit_body (branchCommits ! i))) =
           Inr (hashes ! i)"
    unfolding creations_def r_def by simp
  from loop_no_changes [OF empty count this, of readFileBase64 repoPath "''''"]
  have "pushSignedCommits_loop octokit readFileBase64 branchCommits repoPath branchRepository
          '''' tr = (Inr (last ('''' # hashes)), tr @ creations)"
    unfolding creations_def r_def .
  then show ?thesis
    unfolding r_def
    by (simp add: pushSignedCommits_def await_def createOrUpdateRef_eq Let_def)
qed

text \<open>
  The theorem at work on \<open>host_ok\<close>, which answers the two creations with \<open>remote1\<close> and
  \<open>remote2\<close> and has no branch \<open>feature\<close>.
\<close>

theorem pushSignedCommits_no_changes_witness:
  "snd (pushSignedCommits host_ok files_ex [commit1, commit2] ''/work'' ''octo/repo''
          ''feature'' []) =
     [GitCreateCommit \<lparr>owner = Some ''octo'', repo = Some ''repo''\<rparr> [''0000''] ''aaaa''
        (''first'' @ [CHR 0x0A, CHR 0x0A]),
      GitCreateCommit \<lparr>owner = Some ''octo'', repo = Some ''repo''\<rparr> [''1111''] ''bbbb''
        (''second'' @ [CHR 0x0A, CHR 0x0A]),
      GitGetRef \<lparr>owner = Some ''octo'', repo = Some ''repo''\<rparr> ''feature'',
      GitCreateRef \<lparr>owner = Some ''octo'', repo = Some ''repo''\<rparr> ''remote2''
        ''refs/heads/feature'']"
proof -
  have empty: "\<forall>c \<in> set [commit1, commit2]. changes c = []"
    by (simp add: commit1_def commit2_def)
  have count: "length [''remote1'', ''remote2''] = length [commit1, commit2]"
    by simp
  have created: "\<forall>i < length [commit1, commit2].
      rest_git_createCommit host_ok
        ([] @ take i (map (\<lambda>c. GitCreateCommit (parseRepository ''octo/repo'') (parents c)
                                 (tree c) (subject c @ [CHR 0x0A, CHR 0x0A] @ commit_body c))
                        [commit1, commit2]))
        (map (\<lambda>c. GitCreateCommit (parseRepository ''octo/repo'') (parents c) (tree c)
                    (subject c @ [CHR 0x0A, CHR 0x0A] @ commit_body c))
           [commit1, commit2] ! i) =
      Inr ([''remote1'', ''remote2''] ! i)"
    by (simp add: All_less_Suc host_ok_def)
  from pushSignedCommits_no_changes [OF empty count created, of files_ex "''/work''" "''feature''"]
  show ?thesis
    by (simp add: host_ok_def commit1_def commit2_def parseRepository_def)
qed

text \<open>
  C1 as stated fails: the second commit is created with the parent its local commit
  declares (\<open>1111\<close>), not with the hash \<open>remote1\<close> that the first creation returned.
\<close>

theorem pushSignedCommits_parents_as_declared:
  "snd (pushSignedCommits host_ok files_ex [commit1, commit2] ''/work'' ''octo/repo''
          ''feature'' []) =
     [GitCreateCommit \<lparr>owner = Some ''octo'', repo = Some ''repo''\<rparr> [''0000''] ''aaaa''
        (''first'' @ [CHR 0x0A, CHR 0x0A]),
      GitCreateCommit \<lparr>owner = Some ''octo'', repo = Some ''repo''\<rparr> [''1111''] ''bbbb''
        (''second'' @ [CHR 0x0A, CHR 0x0A]),
      GitGetRef \<lparr>owner = Some ''octo'', repo = Some ''repo''\<rparr> ''feature'',
      GitCreateRef \<lparr>owner = Some ''octo'', repo = Some ''repo''\<rparr> ''remote2''
        ''refs/heads/feature''] \<and>
   rest_git_createCommit host_ok []
     (GitCreateCommit \<lparr>owner = Some ''octo'', repo = Some ''repo''\<rparr> [''0000''] ''aaaa''
        (''first'' @ [CHR 0x0A, CHR 0x0A])) = Inr ''remote1'' \<and>
   snd (pushSignedCommits host_ok files_ex [commit1, commit2] ''/work'' ''octo/repo''
          ''feature'' []) ! 1 \<noteq>
     GitCreateCommit \<lparr>owner = Some ''octo'', repo = Some ''repo''\<rparr> [''remote1''] ''bbbb''
        (''second'' @ [CHR 0x0A, CHR 0x0A])"
  by (simp add: pushSignedCommits_def await_def createOrUpdateRef_def createCommit_def
        request_def ret_def Let_def host_ok_def commit1_def commit2_def parseRepository_def)

lemma snd_createBlobs_Cons:
  "snd (createBlobs octokit rd r repoPath (ch # chs) tr) =
     (if status ch = ''A'' \<or> status ch = ''M''
      then (case rd [repoPath, path ch] of
              Inl e \<Rightarrow> snd (createBlobs octokit rd r repoPath chs tr)
            | Inr content \<Rightarrow>
                snd (createBlobs octokit rd r repoPath chs
                       (tr @ [GitCreateBlob r content ''base64''])))
      else snd (createBlobs octokit rd r repoPath chs tr))"
  by (simp add: request_def split: prod.splits sum.splits)

lemma fst_createBlobs_Cons:
  "fst (createBlobs octokit rd r repoPath (ch # chs) tr) =
     (if status ch = ''A'' \<or> status ch = ''M''
      then (case rd [repoPath, path ch] of
              Inl e \<Rightarrow> Inl e # fst (createBlobs octokit rd r repoPath chs tr)
            | Inr content \<Rightarrow>
                map_sum id
                  (\<lambda>blob_sha. \<lparr>tree_path = path ch, tree_mode = mode ch,
                               tree_sha = Some blob_sha, tree_type = ''blob''\<rparr>)
                  (rest_git_createBlob octokit tr (GitCreateBlob r content ''base64'')) #
                fst (createBlobs octokit rd r repoPath chs
                       (tr @ [GitCreateBlob r content ''base64''])))
      else Inr \<lparr>tree_path = path ch, tree_mode = mode ch, tree_sha = None,
                 tree_type = ''blob''\<rparr> #
           fst (createBlobs octokit rd r repoPath chs tr))"
  by (simp add: request_def split: prod.splits sum.splits)

lemma createBlobs_grows:
  "prefix tr (snd (createBlobs octokit rd r repoPath chs tr))"
proof (induction chs arbitrary: tr)
  case Nil
  show ?case by simp
next
  case (Cons ch chs)
  have "prefix (tr @ [c]) (snd (createBlobs octokit rd r repoPath chs (tr @ [c])))" for c
    by (rule Cons.IH)
  then have "prefix tr (snd (createBlobs octokit rd r repoPath chs (tr @ [c])))" for c
    using append_prefixD by blast
  with Cons.IH [of tr] show ?case
    by (simp add: snd_createBlobs_Cons del: createBlobs.simps split: sum.splits)
qed

lemma createBlobs_only_blobs:
  "GitCreateTree r' bt es \<notin> set (drop (length tr) (snd (createBlobs octokit rd r repoPath chs tr)))"
proof (induction chs arbitrary: tr)
  case Nil
  show ?case by simp
next
  case (Cons ch chs)
  have grows: "prefix (tr @ [c]) (snd (createBlobs octokit rd r repoPath chs (tr @ [c])))" for c
    by (rule createBlobs_grows)
  have "GitCreateTree r' bt es \<notin>
          set (drop (length tr) (snd (createBlobs octokit rd r repoPath chs
                 (tr @ [GitCreateBlob r content ''base64'']))))" for content
  proof -
    from grows [of "GitCreateBlob r content ''base64''"] obtain zs where
      zs: "snd (createBlobs octokit rd r repoPath chs (tr @ [GitCreateBlob r content ''base64''])) =
             (tr @ [GitCreateBlob r content ''base64'']) @ zs"
      by (auto simp: prefix_def)
    from Cons.IH [of "tr @ [GitCreateBlob r content ''base64'']"] zs
    show ?thesis by simp
  qed
  with Cons.IH [of tr] show ?case
    by (simp add: snd_createBlobs_Cons del: createBlobs.simps split: sum.splits)
qed

lemma promise_all_Inr: "promise_all rs = Inr xs \<Longrightarrow> rs = map Inr xs"
proof (induction rs arbitrary: xs)
  case Nil
  then show ?case by simp
next
  case (Cons x rs)
  then show ?case
    by (cases x) (auto split: sum.splits)
qed

lemma createBlobs_entries:
  assumes "prefix tr0 tr"
    and "prefix (snd (createBlobs octokit rd r repoPath chs tr)) T"
  shows "list_all2
           (\<lambda>ch x. case x of
                      Inl e \<Rightarrow> status ch = ''A'' \<or> status ch = ''M''
                    | Inr t \<Rightarrow>
                        tree_path t = path ch \<and> tree_mode t = mode ch \<and>
                        tree_type t = ''blob'' \<and>
                        (if status ch = ''A'' \<or> status ch = ''M''
                         then \<exists>content sent blob_sha.
                                rd [repoPath, path ch] = Inr content \<and>
                                prefix tr0 sent \<and>
                                prefix (sent @ [GitCreateBlob r content ''base64'']) T \<and>
                                rest_git_createBlob octokit sent
                                  (GitCreateBlob r content ''base64'') = Inr blob_sha \<and>
                                tree_sha t = Some blob_sha
                         else tree_sha t = None))
           chs (fst (createBlobs octokit rd r repoPath chs tr))"
  using assms
proof (induction chs arbitrary: tr)
  case Nil
  show ?case by simp
next
  case (Cons ch chs)
  show ?case
  proof (cases "status ch = ''A'' \<or> status ch = ''M''")
    case False
    with Cons.prems have "prefix (snd (createBlobs octokit rd r repoPath chs tr)) T"
      by (simp add: snd_createBlobs_Cons del: createBlobs.simps)
    from Cons.IH [OF Cons.prems(1) this] False show ?thesis
      by (simp add: fst_createBlobs_Cons del: createBlobs.simps)
  next
    case True
    show ?thesis
    proof (cases "rd [repoPath, path ch]")
      case (Inl e)
      with True Cons.prems have "prefix (snd (createBlobs octokit rd r repoPath chs tr)) T"
        by (simp add: snd_createBlobs_Cons del: createBlobs.simps)
      from Cons.IH [OF Cons.prems(1) this] True Inl show ?thesis
        by (simp add: fst_createBlobs_Cons del: createBlobs.simps)
    next
      case (Inr content)
      let ?req = "GitCreateBlob r content ''base64''"
      from True Inr Cons.prems(2)
      have T: "prefix (snd (createBlobs octokit rd r repoPath chs (tr @ [?req]))) T"
        by (simp add: snd_createBlobs_Cons del: createBlobs.simps)
      have "prefix (tr @ [?req]) (snd (createBlobs octokit rd r repoPath chs (tr @ [?req])))"
        by (rule createBlobs_grows)
      with T have sent: "prefix (tr @ [?req]) T"
        using prefix_order.trans by blast
      from Cons.prems(1) have "prefix tr0 (tr @ [?req])"
        by (simp add: prefix_prefix)
      from Cons.IH [OF this T] True Inr sent Cons.prems(1) show ?thesis
        by (cases "rest_git_createBlob octokit tr ?req")
           (auto simp add: fst_createBlobs_Cons simp del: createBlobs.simps)
    qed
  qed
qed

lemma createCommit_with_changes:
  assumes "changes commit \<noteq> []"
  shows "createCommit octokit rd commit repoPath R tr =
     (let r = parseRepository R;
          blobs = createBlobs octokit rd r repoPath (changes commit) tr
      in case promise_all (fst blobs) of
           Inl e \<Rightarrow> (Inl e, snd blobs)
         | Inr treeObjects \<Rightarrow>
             (let t = GitCreateTree r (at (parents commit) 0) treeObjects
              in case rest_git_createTree octokit (snd blobs) t of
                   Inl e \<Rightarrow> (Inl e, snd blobs @ [t])
                 | Inr treeSha \<Rightarrow>
                     (rest_git_createCommit octokit (snd blobs @ [t])
                        (GitCreateCommit r (parents commit) treeSha
                           (subject commit @ [CHR 0x0A, CHR 0x0A] @ commit_body commit)),
                      snd blobs @
                        [t, GitCreateCommit r (parents commit) treeSha
                              (subject commit @ [CHR 0x0A, CHR 0x0A] @ commit_body commit)])))"
  using assms
  by (simp add: createCommit_def await_def request_def ret_def Let_def
           split: prod.splits sum.splits)

text \<open>
  C2. With no changes, \<open>createCommit\<close> sends the commit creation only, with the tree the
  commit declares. A tree creation is sent only for a commit with changes; its base tree
  is the commit's first parent and it has one entry for each change, in the order of the
  changes, with the path and mode of the change and the type \<open>blob\<close>: for status \<open>A\<close> or
  \<open>M\<close> the entry's hash is the answer of a blob creation, sent in this call, with the
  content read for that path; for any other status the hash is null. When \<open>createCommit\<close>
  returns for a commit with changes, its last two requests are the tree creation and the
  commit creation with the tree hash the host answered.
\<close>

theorem createCommit_tree_entries:
  fixes octokit readFileBase64 commit repoPath branchRepository tr
  defines "r \<equiv> parseRepository branchRepository"
    and "message \<equiv> subject commit @ [CHR 0x0A, CHR 0x0A] @ commit_body commit"
    and "T \<equiv> snd (createCommit octokit readFileBase64 commit repoPath branchRepository tr)"
  shows
   "(changes commit = [] \<longrightarrow>
       T = tr @ [GitCreateCommit r (parents commit) (tree commit) message]) \<and>
    (\<forall>r' base_tree entries.
       GitCreateTree r' base_tree entries \<in> set (drop (length tr) T) \<longrightarrow>
       changes commit \<noteq> [] \<and> r' = r \<and> base_tree = at (parents commit) 0 \<and>
       length entries = length (changes commit) \<and>
       (\<forall>i < length (changes commit).
          tree_path (entries ! i) = path (changes commit ! i) \<and>
          tree_mode (entries ! i) = mode (changes commit ! i) \<and>
          tree_type (entries ! i) = ''blob'' \<and>
          (if status (changes commit ! i) = ''A'' \<or> status (changes commit ! i) = ''M''
           then \<exists>content sent blob_sha.
                  readFileBase64 [repoPath, path (changes commit ! i)] = Inr content \<and>
                  prefix tr sent \<and>
                  prefix (sent @ [GitCreateBlob r content ''base64'']) T \<and>
                  rest_git_createBlob octokit sent (GitCreateBlob r content ''base64'') =
                    Inr blob_sha \<and>
                  tree_sha (entries ! i) = Some blob_sha
           else tree_sha (entries ! i) = None))) \<and>
    (\<forall>h. changes commit \<noteq> [] \<and>
         fst (createCommit octokit readFileBase64 commit repoPath branchRepository tr) = Inr h \<longrightarrow>
         (\<exists>sent entries treeSha.
            prefix tr sent \<and>
            T = sent @ [GitCreateTree r (at (parents commit) 0) entries,
                        GitCreateCommit r (parents commit) treeSha message] \<and>
            rest_git_createTree octokit sent (GitCreateTree r (at (parents commit) 0) entries) =
              Inr treeSha))"
proof (cases "changes commit = []")
  case True
  then show ?thesis
    unfolding T_def r_def message_def
    by (simp add: createCommit_no_changes)
next
  case False
  define blobs where
    "blobs = createBlobs octokit readFileBase64 r repoPath (changes commit) tr"
  have grows: "prefix tr (snd blobs)"
    unfolding blobs_def by (rule createBlobs_grows)
  then obtain bs where bs: "snd blobs = tr @ bs"
    by (auto simp: prefix_def)
  have no_tree: "GitCreateTree r' bt es \<notin> set bs" for r' bt es
    using createBlobs_only_blobs
            [of r' bt es tr octokit readFileBase64 r repoPath "changes commit"] bs
    unfolding blobs_def by simp
  note eq = createCommit_with_changes [OF False, of octokit readFileBase64 repoPath
              branchRepository tr, unfolded Let_def, folded r_def message_def,
              folded blobs_def]
  have T_prefix: "prefix (snd blobs) T"
    unfolding T_def eq by (simp split: sum.splits)
  have entries_ok:
    "length entries = length (changes commit) \<and>
     (\<forall>i < length (changes commit).
        tree_path (entries ! i) = path (changes commit ! i) \<and>
        tree_mode (entries ! i) = mode (changes commit ! i) \<and>
        tree_type (entries ! i) = ''blob'' \<and>
        (if status (changes commit ! i) = ''A'' \<or> status (changes commit ! i) = ''M''
         then \<exists>content sent blob_sha.
                readFileBase64 [repoPath, path (changes commit ! i)] = Inr content \<and>
                prefix tr sent \<and>
                prefix (sent @ [GitCreateBlob r content ''base64'']) T \<and>
                rest_git_createBlob octokit sent (GitCreateBlob r content ''base64'') =
                  Inr blob_sha \<and>
                tree_sha (entries ! i) = Some blob_sha
         else tree_sha (entries ! i) = None))"
    if all: "promise_all (fst blobs) = Inr entries" for entries
  proof -
    from promise_all_Inr [OF all] have fst: "fst blobs = map Inr entries" .
    have "prefix tr tr" by simp
    from createBlobs_entries [OF this T_prefix [unfolded blobs_def]]
    have rel: "list_all2
           (\<lambda>ch t.
              tree_path t = path ch \<and> tree_mode t = mode ch \<and> tree_type t = ''blob'' \<and>
              (if status ch = ''A'' \<or> status ch = ''M''
               then \<exists>content sent blob_sha.
                      readFileBase64 [repoPath, path ch] = Inr content \<and>
                      prefix tr sent \<and>
                      prefix (sent @ [GitCreateBlob r content ''base64'']) T \<and>
                      rest_git_createBlob octokit sent
                        (GitCreateBlob r content ''base64'') = Inr blob_sha \<and>
                      tree_sha t = Some blob_sha
               else tree_sha t = None))
           (changes commit) entries"
      using fst unfolding blobs_def by (simp add: list_all2_map2)
    from rel [unfolded list_all2_conv_all_nth] show ?thesis
      by (elim conjE, intro conjI) (erule sym, assumption)
  qed
  have tree_sent:
    "r' = r \<and> base_tree = at (parents commit) 0 \<and> promise_all (fst blobs) = Inr entries"
    if "GitCreateTree r' base_tree entries \<in> set (drop (length tr) T)"
    for r' base_tree entries
    using that no_tree unfolding T_def eq
    by (auto simp add: bs split: sum.splits)
  have returned:
    "\<exists>sent entries treeSha.
        prefix tr sent \<and>
        T = sent @ [GitCreateTree r (at (parents commit) 0) entries,
                    GitCreateCommit r (parents commit) treeSha message] \<and>
        rest_git_createTree octokit sent (GitCreateTree r (at (parents commit) 0) entries) =
          Inr treeSha"
    if "fst (createCommit octokit readFileBase64 commit repoPath branchRepository tr) = Inr h"
    for h
    using that grows unfolding T_def eq
    by (auto split: sum.splits)
  from False entries_ok tree_sent returned show ?thesis
    by blast
qed

lemma host_ok_objects [simp]:
  "rest_git_createBlob host_ok tr c = Inr ''b10b''"
  "rest_git_createTree host_ok tr c = Inr ''7ree''"
  "rest_git_createCommit host_ok (x # tr) c = Inr ''remote2''"
  by (simp_all add: host_ok_def)

lemma createCommit_commit3:
  "createCommit host_ok files_ex commit3 ''/work'' ''octo/repo'' [] =
     (Inr ''remote2'',
      [GitCreateBlob \<lparr>owner = Some ''octo'', repo = Some ''repo''\<rparr> ''aGVsbG8='' ''base64'',
       GitCreateTree \<lparr>owner = Some ''octo'', repo = Some ''repo''\<rparr> (Some ''0000'')
         [\<lparr>tree_path = ''a.txt'', tree_mode = ''100644'', tree_sha = Some ''b10b'',
           tree_type = ''blob''\<rparr>,
          \<lparr>tree_path = ''b.txt'', tree_mode = ''100644'', tree_sha = None,
           tree_type = ''blob''\<rparr>],
       GitCreateCommit \<lparr>owner = Some ''octo'', repo = Some ''repo''\<rparr> [''0000''] ''7ree''
         (''third'' @ [CHR 0x0A, CHR 0x0A])])"
  by (simp add: createCommit_def await_def request_def ret_def Let_def commit3_def files_ex_def
        request_ex)

text \<open>
  The theorem at work on \<open>host_ok\<close>: a commit with no changes, and a commit that modifies
  \<open>a.txt\<close> and deletes \<open>b.txt\<close>.
\<close>

theorem createCommit_tree_entries_witness:
  "snd (createCommit host_ok files_ex commit1 ''/work'' ''octo/repo'' []) =
     [GitCreateCommit \<lparr>owner = Some ''octo'', repo = Some ''repo''\<rparr> [''0000''] ''aaaa''
        (''first'' @ [CHR 0x0A, CHR 0x0A])] \<and>
   (\<exists>entries.
      GitCreateTree \<lparr>owner = Some ''octo'', repo = Some ''repo''\<rparr> (Some ''0000'') entries \<in>
        set (snd (createCommit host_ok files_ex commit3 ''/work'' ''octo/repo'' [])) \<and>
      length entries = 2 \<and>
      tree_path (entries ! 0) = ''a.txt'' \<and> tree_sha (entries ! 0) = Some ''b10b'' \<and>
      tree_path (entries ! 1) = ''b.txt'' \<and> tree_sha (entries ! 1) = None)"
proof -
  have "changes commit1 = []"
    by (simp add: commit1_def)
  from createCommit_tree_entries [of commit1 host_ok files_ex "''/work''" "''octo/repo''" "[]",
         THEN conjunct1, rule_format, OF this]
  have first: "snd (createCommit host_ok files_ex commit1 ''/work'' ''octo/repo'' []) =
     [GitCreateCommit \<lparr>owner = Some ''octo'', repo = Some ''repo''\<rparr> [''0000''] ''aaaa''
        (''first'' @ [CHR 0x0A, CHR 0x0A])]"
    by (simp add: commit1_def request_ex)
  note third = createCommit_tree_entries [of commit3 host_ok files_ex "''/work''"
                 "''octo/repo''" "[]"]
  define T where "T = snd (createCommit host_ok files_ex commit3 ''/work'' ''octo/repo'' [])"
  have fields: "changes commit3 = [\<lparr>path = ''a.txt'', mode = ''100644'', status = ''M''\<rparr>,
                 \<lparr>path = ''b.txt'', mode = ''100644'', status = ''D''\<rparr>]"
    "parents commit3 = [''0000'']"
    by (simp_all add: commit3_def)
  have "changes commit3 \<noteq> [] \<and>
        fst (createCommit host_ok files_ex commit3 ''/work'' ''octo/repo'' []) = Inr ''remote2''"
    by (simp add: createCommit_commit3 fields)
  from third [THEN conjunct2, THEN conjunct2, rule_format, OF this, folded T_def]
  obtain sent entries treeSha where
    T: "T = sent @ [GitCreateTree (parseRepository ''octo/repo'') (at (parents commit3) 0) entries,
                    GitCreateCommit (parseRepository ''octo/repo'') (parents commit3) treeSha
                      (subject commit3 @ [CHR 0x0A, CHR 0x0A] @ commit_body commit3)]"
    by blast
  then have sent_tree:
    "GitCreateTree (parseRepository ''octo/repo'') (at (parents commit3) 0) entries \<in>
       set (drop (length ([] :: call list)) T)"
    by simp
  note entries = third [folded T_def, THEN conjunct2, THEN conjunct1, rule_format, OF sent_tree]
  note len = entries [THEN conjunct2, THEN conjunct2, THEN conjunct2, THEN conjunct1]
  note each = entries [THEN conjunct2, THEN conjunct2, THEN conjunct2, THEN conjunct2,
                rule_format]
  have i0: "0 < length (changes commit3)" and i1: "1 < length (changes commit3)"
    by (simp_all add: fields)
  have s0: "status (changes commit3 ! 0) = ''M''" "path (changes commit3 ! 0) = ''a.txt''"
    and s1: "status (changes commit3 ! 1) = ''D''" "path (changes commit3 ! 1) = ''b.txt''"
    by (simp_all add: fields)
  from each [OF i0] have e0: "tree_path (entries ! 0) = ''a.txt'' \<and>
                             tree_sha (entries ! 0) = Some ''b10b''"
    unfolding s0 by auto
  from each [OF i1] have e1: "tree_path (entries ! 1) = ''b.txt'' \<and> tree_sha (entries ! 1) = None"
    unfolding s1 by simp
  from len have l: "length entries = 2"
    by (simp add: fields)
  from sent_tree have "GitCreateTree \<lparr>owner = Some ''octo'', repo = Some ''repo''\<rparr>
                         (Some ''0000'') entries \<in> set T"
    by (simp add: fields request_ex)
  with l e0 e1 first show ?thesis
    unfolding T_def by blast
qed

end
